theory Spec2Isabelle
  imports Main "HOL-Library.Sublist"
begin

section \<open>Per-channel sessions (index.ts, createClaudeCodeBot)\<close>

text \<open>
  The bot keeps one \<open>ChannelSession\<close> object per Discord channel in the map
  \<open>channelSessions\<close>, and one global \<open>activeChannelId\<close> through which the
  closures handed to the Claude handlers (\<open>getController\<close>, \<open>setController\<close>,
  \<open>getSessionId\<close>, \<open>setSessionId\<close>) find "the" session. An \<open>AbortController\<close> is a
  shared mutable object: the model names it by a reference and keeps the
  \<open>signal.aborted\<close> flag of every controller in the state.

  JavaScript is single threaded: the code between two \<open>await\<close>s runs atomically. Each
  definition below is one such atomic piece, or a composition of pieces with nothing
  running in between.
\<close>

type_synonym channel_id = string
type_synonym controller_ref = nat

record QueuedMessage =
  ctx :: nat
  prompt :: string

record ChannelSession =
  controller :: "controller_ref option"
  sessionId :: "string option"
  channelWorkDir :: string
  channelName :: "string option"
  messageQueue :: "QueuedMessage list"

text \<open>One call of \<open>allHandlers.claude.onClaude\<close> made by \<open>processMessage\<close>: the channel
  it was made for, the reply target, the prompt, the session id passed for resumption and
  the controller the call created.\<close>

record dispatch =
  d_channel :: channel_id
  d_ctx :: nat
  d_prompt :: string
  d_resume :: "string option"
  d_controller :: controller_ref

record bot_state =
  workDir :: string
  channelSessions :: "channel_id \<rightharpoonup> ChannelSession"
  activeChannelId :: "channel_id option"
  aborted :: "controller_ref \<Rightarrow> bool"
  next_controller :: controller_ref
  dispatched :: "dispatch list"

text \<open>JavaScript truthiness of a \<open>string | undefined\<close>: \<open>undefined\<close> and the empty
  string are falsy.\<close>

fun truthy :: "string option \<Rightarrow> bool" where
  "truthy None = False"
| "truthy (Some s) = (s \<noteq> [])"

text \<open>\<open>getChannelSession(channelId, channelName?)\<close>: creates the entry on first use and
  returns the stored object.\<close>

definition getChannelSession ::
  "channel_id \<Rightarrow> string option \<Rightarrow> bot_state \<Rightarrow> ChannelSession \<times> bot_state" where
  "getChannelSession channelId chanName st =
     (case channelSessions st channelId of
        Some s \<Rightarrow> (s, st)
      | None \<Rightarrow>
          (let folderName = (if truthy chanName then the chanName else channelId);
               s = \<lparr>controller = None, sessionId = None,
                    channelWorkDir = workDir st @ ''/'' @ folderName,
                    channelName = Some folderName, messageQueue = []\<rparr>
           in (s, st\<lparr>channelSessions := (channelSessions st)(channelId \<mapsto> s)\<rparr>)))"

text \<open>A field assignment on the session object stored under a channel.\<close>

definition update_session ::
  "channel_id \<Rightarrow> (ChannelSession \<Rightarrow> ChannelSession) \<Rightarrow> bot_state \<Rightarrow> bot_state" where
  "update_session channelId f st =
     (case channelSessions st channelId of
        Some s \<Rightarrow> st\<lparr>channelSessions := (channelSessions st)(channelId \<mapsto> f s)\<rparr>
      | None \<Rightarrow> st)"

text \<open>The object a handler holds in its \<open>session\<close> variable: \<open>onMessage\<close> obtains it from
  \<open>getChannelSession\<close>, and entries of the map are never removed or replaced, so it is the
  object stored under the channel.\<close>

definition session_of :: "bot_state \<Rightarrow> channel_id \<Rightarrow> ChannelSession" where
  "session_of st channelId = fst (getChannelSession channelId None st)"

text \<open>The closures of lines 518-521. Each looks the session up through
  \<open>activeChannelId\<close> at the time it is called. Writing the session file
  (\<open>saveSessionState\<close>) touches the disk only and is left out.\<close>

definition getController :: "bot_state \<Rightarrow> controller_ref option \<times> bot_state" where
  "getController st =
     (if truthy (activeChannelId st)
      then (let (s, st') = getChannelSession (the (activeChannelId st)) None st
            in (controller s, st'))
      else (None, st))"

definition setController :: "controller_ref option \<Rightarrow> bot_state \<Rightarrow> bot_state" where
  "setController c st =
     (if truthy (activeChannelId st)
      then (let a = the (activeChannelId st); (s, st') = getChannelSession a None st
            in update_session a (\<lambda>s. s\<lparr>controller := c\<rparr>) st')
      else st)"

definition getSessionId :: "bot_state \<Rightarrow> string option \<times> bot_state" where
  "getSessionId st =
     (if truthy (activeChannelId st)
      then (let (s, st') = getChannelSession (the (activeChannelId st)) None st
            in (sessionId s, st'))
      else (None, st))"

definition setSessionId :: "string option \<Rightarrow> bot_state \<Rightarrow> bot_state" where
  "setSessionId sid st =
     (if truthy (activeChannelId st)
      then (let a = the (activeChannelId st); (s, st') = getChannelSession a None st
            in update_session a (\<lambda>s. s\<lparr>sessionId := sid\<rparr>) st')
      else st)"

text \<open>\<open>controller.abort()\<close> and \<open>new AbortController()\<close>.\<close>

definition abort :: "controller_ref \<Rightarrow> bot_state \<Rightarrow> bot_state" where
  "abort c st = st\<lparr>aborted := (aborted st)(c := True)\<rparr>"

definition new_AbortController :: "bot_state \<Rightarrow> controller_ref \<times> bot_state" where
  "new_AbortController st =
     (let c = next_controller st
      in (c, st\<lparr>aborted := (aborted st)(c := False), next_controller := Suc c\<rparr>))"

text \<open>The test of line 606, \<open>session.controller && !session.controller.signal.aborted\<close>.\<close>

definition session_busy :: "bot_state \<Rightarrow> ChannelSession \<Rightarrow> bool" where
  "session_busy st s = (case controller s of Some c \<Rightarrow> \<not> aborted st c | None \<Rightarrow> False)"

section \<open>Starting a task (claude/command.ts, onClaude)\<close>

text \<open>
  Modelled from the spec: \<open>core/handler-registry.ts\<close>, which builds the
  \<open>ClaudeHandlerDeps\<close> object from the closures above, is not among the sources. The spec
  has the cancel command and the executor act on the live cancellation handle of the
  channel, so \<open>deps.claudeController\<close> reads \<open>getController()\<close>,
  \<open>deps.setClaudeController\<close> is \<open>setController\<close> and \<open>deps.setClaudeSessionId\<close> is
  \<open>setSessionId\<close>.
\<close>

definition deps_claudeController :: "bot_state \<Rightarrow> controller_ref option \<times> bot_state" where
  "deps_claudeController = getController"

definition deps_setClaudeController :: "controller_ref option \<Rightarrow> bot_state \<Rightarrow> bot_state" where
  "deps_setClaudeController = setController"

definition deps_setClaudeSessionId :: "string option \<Rightarrow> bot_state \<Rightarrow> bot_state" where
  "deps_setClaudeSessionId = setSessionId"

text \<open>\<open>onClaude_start\<close> is the synchronous head of \<open>onClaude\<close> when no external
  controller is passed (\<open>processMessage\<close> passes none): abort the controller the deps hold,
  create a new one and store it.\<close>

definition onClaude_start :: "bot_state \<Rightarrow> controller_ref \<times> bot_state" where
  "onClaude_start st =
     (let (cur, st1) = deps_claudeController st;
          st2 = (case cur of Some c \<Rightarrow> abort c st1 | None \<Rightarrow> st1);
          (c, st3) = new_AbortController st2
      in (c, deps_setClaudeController (Some c) st3))"

text \<open>The head of \<open>processMessage\<close> (lines 624-630): the stored session id is passed
  only when truthy, then \<open>onClaude\<close> starts. The prompt also goes to the message history,
  which nothing here reads. The call is recorded in \<open>dispatched\<close>.\<close>

definition processMessage_start :: "channel_id \<Rightarrow> QueuedMessage \<Rightarrow> bot_state \<Rightarrow> bot_state" where
  "processMessage_start channelId m st =
     (let sid = sessionId (session_of st channelId);
          resume = (if truthy sid then sid else None);
          (c, st1) = onClaude_start st
      in st1\<lparr>dispatched := dispatched st1 @
           [\<lparr>d_channel = channelId, d_ctx = ctx m, d_prompt = prompt m,
             d_resume = resume, d_controller = c\<rparr>]\<rparr>)"

section \<open>Submitting a message (index.ts, onMessage)\<close>

text \<open>\<open>onMessage_enter\<close> is lines 557-559, before the first \<open>await\<close>;
  \<open>onMessage_submit\<close> is lines 606-619, after the channel folder and the images have been
  awaited; the prompt of the message is the text with the image references added. The
  reply to the caller is the returned value. \<open>onMessage\<close> is the handler with no other
  handler running during its awaits.\<close>

datatype submit_reply = Queued nat | Dispatched

definition onMessage_enter :: "channel_id \<Rightarrow> string option \<Rightarrow> bot_state \<Rightarrow> bot_state" where
  "onMessage_enter channelId chanName st =
     snd (getChannelSession channelId chanName (st\<lparr>activeChannelId := Some channelId\<rparr>))"

definition onMessage_submit ::
  "channel_id \<Rightarrow> QueuedMessage \<Rightarrow> bot_state \<Rightarrow> submit_reply \<times> bot_state" where
  "onMessage_submit channelId m st =
     (if session_busy st (session_of st channelId)
      then (let st1 = update_session channelId (\<lambda>s. s\<lparr>messageQueue := messageQueue s @ [m]\<rparr>) st
            in (Queued (length (messageQueue (session_of st1 channelId))), st1))
      else (Dispatched, processMessage_start channelId m st))"

definition onMessage ::
  "channel_id \<Rightarrow> string option \<Rightarrow> QueuedMessage \<Rightarrow> bot_state \<Rightarrow> submit_reply \<times> bot_state" where
  "onMessage channelId chanName m st =
     onMessage_submit channelId m (onMessage_enter channelId chanName st)"

section \<open>Settling a task and draining the queue\<close>

text \<open>What \<open>sendToClaudeCode\<close> returns (its declared return type), and a thrown
  JavaScript error with the \<open>stderrOutput\<close> property the client attaches.\<close>

record claude_response =
  response :: string
  r_sessionId :: "string option"
  cost :: "nat option"
  duration :: "nat option"
  modelUsed :: "string option"
  stderrOutput :: "string option"

record js_error =
  e_name :: string
  e_message :: string
  e_stderrOutput :: "string option"

text \<open>How the call of \<open>sendToClaudeCode\<close> that \<open>onClaude\<close> awaits settles: \<open>Inr\<close> the
  response it returns, \<open>Inl\<close> the error it throws.\<close>

type_synonym task_outcome = "js_error + claude_response"

text \<open>
  The tail of \<open>onClaude\<close> in the handler with the \<open>try\<close>/\<open>catch\<close> (command.ts with
  \<open>externalController\<close>, lines 95-175), no external controller given: a response stores
  its session id and clears the controller; an error clears the controller only. The
  notifications sent to Discord and the value returned (which \<open>processMessage\<close> drops) are
  left out.
\<close>

definition onClaude_settle :: "task_outcome \<Rightarrow> bot_state \<Rightarrow> bot_state" where
  "onClaude_settle out st =
     (case out of
        Inr result \<Rightarrow>
          deps_setClaudeController None (deps_setClaudeSessionId (r_sessionId result) st)
      | Inl error \<Rightarrow> deps_setClaudeController None st)"

text \<open>
  The same handler races the call against a timer of its own (lines 52-66), cleared by
  the first message of the stream. When it fires first, it aborts the controller of the
  task and rejects with a \<open>TIMEOUT\<close> error, and the \<open>catch\<close> runs as for a thrown error;
  what the call does later is dropped.
\<close>

definition TIMEOUT_error :: "string \<Rightarrow> js_error" where
  "TIMEOUT_error currentWorkDir =
     \<lparr>e_name = ''Error'',
      e_message = ''TIMEOUT: Claude CLI produced no output after 30s. ''
        @ ''The CLI may not be installed, not authenticated, or hanging. ''
        @ ''cwd='' @ currentWorkDir,
      e_stderrOutput = None\<rparr>"

definition onClaude_timeout :: "controller_ref \<Rightarrow> string \<Rightarrow> bot_state \<Rightarrow> bot_state" where
  "onClaude_timeout c currentWorkDir st =
     onClaude_settle (Inl (TIMEOUT_error currentWorkDir)) (abort c st)"

text \<open>
  The tail of \<open>onClaude\<close> in the handler without \<open>try\<close>/\<open>catch\<close> (the other copy of
  command.ts, lines 166-205): an error of \<open>sendToClaudeCode\<close> leaves the function at the
  \<open>await\<close>, so neither setter runs and the error reaches the caller.
\<close>

definition onClaude_settle_uncaught :: "task_outcome \<Rightarrow> bot_state \<Rightarrow> js_error option \<times> bot_state" where
  "onClaude_settle_uncaught out st =
     (case out of
        Inr result \<Rightarrow>
          (None, deps_setClaudeController None (deps_setClaudeSessionId (r_sessionId result) st))
      | Inl error \<Rightarrow> (Some error, st))"

text \<open>\<open>session.messageQueue.shift()\<close> on the session of \<open>processMessage\<close>.\<close>

definition messageQueue_shift :: "channel_id \<Rightarrow> bot_state \<Rightarrow> QueuedMessage option \<times> bot_state" where
  "messageQueue_shift channelId st =
     (case messageQueue (session_of st channelId) of
        [] \<Rightarrow> (None, st)
      | next # rest \<Rightarrow>
          (Some next, update_session channelId (\<lambda>s. s\<lparr>messageQueue := rest\<rparr>) st))"

text \<open>
  \<open>processMessage\<close> (lines 623-638) awaits \<open>onClaude\<close>, then takes the head of the queue
  and calls itself on it. The list argument gives the outcomes of the tasks in the order
  they settle; when it is used up the task started last is still running.
  \<open>processMessage_resume\<close> is the function from the point where its task is running,
  with the \<open>onClaude\<close> that has the \<open>try\<close>/\<open>catch\<close>; nothing else runs in between. (When
  the timer of that handler ends a task, the state is the one after \<open>abort\<close> on the
  controller of the task and the outcome is the \<open>TIMEOUT\<close> error.)
\<close>

fun processMessage_resume :: "channel_id \<Rightarrow> task_outcome list \<Rightarrow> bot_state \<Rightarrow> bot_state" where
  "processMessage_resume channelId [] st = st"
| "processMessage_resume channelId (out # outs) st =
     (case messageQueue_shift channelId (onClaude_settle out st) of
        (None, st') \<Rightarrow> st'
      | (Some next, st') \<Rightarrow>
          processMessage_resume channelId outs
            (processMessage_start channelId next (st'\<lparr>activeChannelId := Some channelId\<rparr>)))"

definition processMessage ::
  "channel_id \<Rightarrow> QueuedMessage \<Rightarrow> task_outcome list \<Rightarrow> bot_state \<Rightarrow> bot_state" where
  "processMessage channelId m outs st =
     processMessage_resume channelId outs (processMessage_start channelId m st)"

text \<open>
  \<open>processMessage_resume\<close> with the \<open>onClaude\<close> that has no \<open>try\<close>/\<open>catch\<close>. An error of the
  task leaves \<open>onClaude\<close> and then \<open>processMessage\<close> at the \<open>await\<close> of line 627 or 629,
  before the queue is looked at, and every activation waiting at line 636 is left in the
  same way. The first component is the error that leaves the outermost activation.
\<close>

fun processMessage_resume_uncaught ::
  "channel_id \<Rightarrow> task_outcome list \<Rightarrow> bot_state \<Rightarrow> js_error option \<times> bot_state" where
  "processMessage_resume_uncaught channelId [] st = (None, st)"
| "processMessage_resume_uncaught channelId (out # outs) st =
     (case onClaude_settle_uncaught out st of
        (Some error, st1) \<Rightarrow> (Some error, st1)
      | (None, st1) \<Rightarrow>
          (case messageQueue_shift channelId st1 of
             (None, st') \<Rightarrow> (None, st')
           | (Some next, st') \<Rightarrow>
               processMessage_resume_uncaught channelId outs
                 (processMessage_start channelId next (st'\<lparr>activeChannelId := Some channelId\<rparr>))))"

section \<open>The cancel and new commands (command-wrappers.ts)\<close>

text \<open>\<open>setChannel(ctx)\<close>: the active channel follows the interaction when it has a
  channel id.\<close>

definition setChannel :: "channel_id option \<Rightarrow> bot_state \<Rightarrow> bot_state" where
  "setChannel ctx_channelId st =
     (if truthy ctx_channelId then st\<lparr>activeChannelId := ctx_channelId\<rparr> else st)"

text \<open>\<open>onClaudeCancel\<close> (command.ts): returns whether there was a controller.\<close>

definition onClaudeCancel :: "bot_state \<Rightarrow> bool \<times> bot_state" where
  "onClaudeCancel st =
     (let (cur, st1) = deps_claudeController st
      in case cur of
           None \<Rightarrow> (False, st1)
         | Some c \<Rightarrow>
             (True, deps_setClaudeSessionId None (deps_setClaudeController None (abort c st1))))"

text \<open>The \<open>/cancel\<close> command replies "Cancelled" or "Nothing to Cancel" after the returned
  boolean; \<open>/new\<close> cancels and then clears the session id in any case.\<close>

definition cancel_command :: "channel_id option \<Rightarrow> bot_state \<Rightarrow> bool \<times> bot_state" where
  "cancel_command ctx_channelId st = onClaudeCancel (setChannel ctx_channelId st)"

definition new_command :: "channel_id option \<Rightarrow> bot_state \<Rightarrow> bot_state" where
  "new_command ctx_channelId st =
     deps_setClaudeSessionId None (snd (onClaudeCancel (setChannel ctx_channelId st)))"

section \<open>The client (claude/client.ts)\<close>

subsection \<open>cleanSessionId\<close>

text \<open>Strings are byte strings here; \<open>trim\<close> removes the ASCII white space among the
  characters JavaScript's \<open>trim\<close> removes.\<close>

definition is_space :: "char \<Rightarrow> bool" where
  "is_space c = (c \<in> set [CHR '' '', CHR 0x09, CHR 0x0A, CHR 0x0B, CHR 0x0C, CHR 0x0D])"

definition trim :: "string \<Rightarrow> string" where
  "trim s = rev (dropWhile is_space (rev (dropWhile is_space s)))"

definition backtick :: char where
  "backtick = CHR 0x60"

text \<open>\<open>replace(/^`+|`+$/g, '')\<close>.\<close>

definition strip_backticks :: "string \<Rightarrow> string" where
  "strip_backticks s =
     rev (dropWhile (\<lambda>c. c = backtick) (rev (dropWhile (\<lambda>c. c = backtick) s)))"

text \<open>\<open>replace(/^```\n?|\n?```$/g, '')\<close>: an opening fence with the line break after it,
  then a closing fence with the line break before it.\<close>

definition fence :: string where
  "fence = [backtick, backtick, backtick]"

definition strip_fences :: "string \<Rightarrow> string" where
  "strip_fences s =
     (let s1 = (if prefix fence s
                then (let t = drop 3 s in if prefix [CHR 0x0A] t then drop 1 t else t)
                else s)
      in if suffix fence s1
         then (let t = take (length s1 - 3) s1 in if suffix [CHR 0x0A] t then butlast t else t)
         else s1)"

definition cleanSessionId :: "string \<Rightarrow> string" where
  "cleanSessionId sid =
     trim (filter (\<lambda>c. c \<noteq> CHR 0x0D \<and> c \<noteq> CHR 0x0A) (strip_fences (strip_backticks (trim sid))))"

subsection \<open>The message stream of a query\<close>

text \<open>
  \<open>claudeQuery\<close> belongs to the SDK. A run of it is given by what it does, in order: it
  yields a message, writes a line to stderr, lets time pass, or the controller is aborted
  from outside (the cancel command, a shutdown); and by how the iteration ends when the
  loop has not left it before: the stream ends, the iterator throws, or the next message
  never comes. Amounts of money and time in a message are opaque numbers.
\<close>

record content_block =
  block_type :: string
  block_text :: string

record sdk_message =
  msg_type :: string
  msg_content :: "content_block list option"
  session_id :: "string option"
  total_cost_usd :: "nat option"
  duration_ms :: "nat option"

datatype stream_event = Message sdk_message | Stderr string | Elapse nat | AbortSignal

datatype stream_end = Ends | Throws js_error | Hangs

record query_run =
  events :: "stream_event list"
  ending :: stream_end

text \<open>The arguments of \<open>sendToClaudeCode\<close> (the controller is the \<open>signal_aborted\<close> flag
  of the state below; of each callback only whether it was given matters), and the options
  a call of \<open>claudeQuery\<close> receives.\<close>

record send_args =
  a_workDir :: string
  a_prompt :: string
  a_sessionId :: "string option"
  a_onChunk :: bool
  a_onStreamJson :: bool
  a_continueMode :: bool
  a_model :: "string option"
  a_workspaceRootDir :: "string option"

record query_options =
  q_prompt :: string
  q_cwd :: string
  q_canUseTool :: bool
  q_continue :: bool
  q_resume :: "string option"
  q_model :: "string option"

text \<open>
  The variables of one call of \<open>sendToClaudeCode\<close>. Shared by both attempts: the
  controller's flag, the captured stderr lines, the calls of the two callbacks, the queries
  made, and the timers an attempt left armed when it ended in its \<open>catch\<close> (which does not
  clear them). Of the running attempt: its counters and its armed timer, as the
  milliseconds left. A timer that fires aborts the controller unless it is aborted
  already; the startup timer is only ever armed while no message has come, so its test
  \<open>messageCount === 0\<close> holds whenever it fires.
\<close>

record exec_state =
  signal_aborted :: bool
  stderrLines :: "string list"
  streamed :: "sdk_message list"
  chunks :: "string list"
  queries :: "query_options list"
  stale_timers :: "nat list"
  messageCount :: nat
  timeoutId :: "nat option"
  currentMessages :: "sdk_message list"
  currentResponse :: string
  currentSessionId :: "string option"

definition STARTUP_TIMEOUT :: nat where
  "STARTUP_TIMEOUT = 30000"

definition ACTIVITY_TIMEOUT :: nat where
  "ACTIVITY_TIMEOUT = 5 * 60 * 1000"

text \<open>\<open>d\<close> milliseconds pass: every armed timer with at most \<open>d\<close> left fires.\<close>

definition elapse :: "nat \<Rightarrow> exec_state \<Rightarrow> exec_state" where
  "elapse d x =
     x\<lparr>signal_aborted :=
          signal_aborted x
          \<or> (case timeoutId x of Some r \<Rightarrow> r \<le> d | None \<Rightarrow> False)
          \<or> list_ex (\<lambda>r. r \<le> d) (stale_timers x),
       timeoutId :=
          (case timeoutId x of Some r \<Rightarrow> if r \<le> d then None else Some (r - d) | None \<Rightarrow> None),
       stale_timers := map (\<lambda>r. r - d) (filter (\<lambda>r. d < r) (stale_timers x))\<rparr>"

definition resetActivityTimeout :: "exec_state \<Rightarrow> exec_state" where
  "resetActivityTimeout x =
     x\<lparr>timeoutId := (if signal_aborted x then None else Some ACTIVITY_TIMEOUT)\<rparr>"

definition text_content :: "content_block list \<Rightarrow> string" where
  "text_content cs = concat (map block_text (filter (\<lambda>c. block_type c = ''text'') cs))"

text \<open>The body of the loop after the abort test (lines 172-198).\<close>

definition on_message :: "send_args \<Rightarrow> sdk_message \<Rightarrow> exec_state \<Rightarrow> exec_state" where
  "on_message a m x =
     (let x1 = x\<lparr>currentMessages := currentMessages x @ [m]\<rparr>;
          x2 = (if a_onStreamJson a then x1\<lparr>streamed := streamed x1 @ [m]\<rparr> else x1);
          x3 = (if msg_type m = ''assistant'' \<and> msg_content m \<noteq> None \<and> \<not> a_onStreamJson a
                then (let t = text_content (the (msg_content m))
                      in (if t \<noteq> [] \<and> a_onChunk a then x2\<lparr>chunks := chunks x2 @ [t]\<rparr> else x2)
                           \<lparr>currentResponse := t\<rparr>)
                else x2)
      in if truthy (session_id m) then x3\<lparr>currentSessionId := session_id m\<rparr> else x3)"

text \<open>The \<open>for await\<close> loop (lines 159-199) over the events of a run; the boolean tells
  whether the loop was left by \<open>break\<close>.\<close>

fun for_await :: "send_args \<Rightarrow> stream_event list \<Rightarrow> exec_state \<Rightarrow> bool \<times> exec_state" where
  "for_await a [] x = (False, x)"
| "for_await a (Elapse d # es) x = for_await a es (elapse d x)"
| "for_await a (Stderr l # es) x = for_await a es (x\<lparr>stderrLines := stderrLines x @ [l]\<rparr>)"
| "for_await a (AbortSignal # es) x = for_await a es (x\<lparr>signal_aborted := True\<rparr>)"
| "for_await a (Message m # es) x =
     (let x1 = resetActivityTimeout (x\<lparr>messageCount := Suc (messageCount x)\<rparr>)
      in if signal_aborted x1 then (True, x1) else for_await a es (on_message a m x1))"

subsection \<open>One attempt: executeWithErrorHandling\<close>

text \<open>\<open>lines.join('\n')\<close> and \<open>s.includes(t)\<close>.\<close>

fun join_lines :: "string list \<Rightarrow> string" where
  "join_lines [] = []"
| "join_lines [l] = l"
| "join_lines (l # ls) = l @ [CHR 0x0A] @ join_lines ls"

definition str_includes :: "string \<Rightarrow> string \<Rightarrow> bool" where
  "str_includes s t = sublist t s"

record exec_result =
  res_messages :: "sdk_message list"
  res_response :: string
  res_sessionId :: "string option"
  res_aborted :: bool
  res_modelUsed :: string
  res_stderrOutput :: string

text \<open>How an awaited call settles: it returns, it throws, or it never does either.\<close>

datatype 'a settled = Resolved 'a | Rejected js_error | NeverSettles

definition cleanedSessionId :: "send_args \<Rightarrow> string option" where
  "cleanedSessionId a =
     (if truthy (a_sessionId a) then Some (cleanSessionId (the (a_sessionId a))) else None)"

text \<open>The test of the inner \<open>catch\<close> (lines 220-222) for an abort.\<close>

definition abort_like :: "js_error \<Rightarrow> bool \<Rightarrow> bool" where
  "abort_like error is_aborted =
     (e_name error = ''AbortError'' \<or> is_aborted
      \<or> (e_message error \<noteq> [] \<and> str_includes (e_message error) ''exited with code 143''))"

text \<open>Leaving an attempt through its \<open>catch\<close> keeps the armed timer running.\<close>

definition leave_timer_armed :: "exec_state \<Rightarrow> exec_state" where
  "leave_timer_armed x =
     x\<lparr>stale_timers := stale_timers x @ (case timeoutId x of Some r \<Rightarrow> [r] | None \<Rightarrow> []),
       timeoutId := None\<rparr>"

text \<open>The head of \<open>executeWithErrorHandling(overrideModel, skipResume)\<close>: the model and
  the resume decision (lines 89-90), the options of the query, the counters of the attempt
  and the startup timer (lines 124-157).\<close>

definition modelToUse :: "send_args \<Rightarrow> string option \<Rightarrow> string option" where
  "modelToUse a overrideModel =
     (if truthy overrideModel then overrideModel
      else if truthy (a_model a) then a_model a else None)"

definition shouldResume :: "send_args \<Rightarrow> bool \<Rightarrow> bool" where
  "shouldResume a skipResume =
     (truthy (cleanedSessionId a) \<and> \<not> a_continueMode a \<and> \<not> skipResume)"

definition queryOptions :: "send_args \<Rightarrow> string option \<Rightarrow> bool \<Rightarrow> query_options" where
  "queryOptions a overrideModel skipResume =
     \<lparr>q_prompt = a_prompt a, q_cwd = a_workDir a,
      q_canUseTool = truthy (a_workspaceRootDir a),
      q_continue = a_continueMode a,
      q_resume = (if shouldResume a skipResume then cleanedSessionId a else None),
      q_model = modelToUse a overrideModel\<rparr>"

definition start_attempt :: "query_options \<Rightarrow> exec_state \<Rightarrow> exec_state" where
  "start_attempt q x0 =
     x0\<lparr>queries := queries x0 @ [q], messageCount := 0,
        timeoutId := (if signal_aborted x0 then None else Some STARTUP_TIMEOUT),
        currentMessages := [], currentResponse := [], currentSessionId := None\<rparr>"

text \<open>The result object of the \<open>catch\<close> for an abort (lines 224-231).\<close>

definition aborted_result :: "exec_state \<Rightarrow> exec_result" where
  "aborted_result x =
     \<lparr>res_messages = [], res_response = [], res_sessionId = None, res_aborted = True,
      res_modelUsed = ''Default'', res_stderrOutput = join_lines (stderrLines x)\<rparr>"

text \<open>When the next message never comes, every timer still armed fires in the end.\<close>

definition wait_forever :: "exec_state \<Rightarrow> exec_state" where
  "wait_forever x =
     x\<lparr>signal_aborted := signal_aborted x \<or> timeoutId x \<noteq> None \<or> stale_timers x \<noteq> [],
       timeoutId := None, stale_timers := []\<rparr>"

definition executeWithErrorHandling ::
  "send_args \<Rightarrow> string option \<Rightarrow> bool \<Rightarrow> query_run \<Rightarrow> exec_state
     \<Rightarrow> exec_result settled \<times> exec_state" where
  "executeWithErrorHandling a overrideModel skipResume run x0 =
     (let (broke, x2) =
            for_await a (events run)
              (start_attempt (queryOptions a overrideModel skipResume) x0)
      in if broke \<or> ending run = Ends
         then (Resolved
                 \<lparr>res_messages = currentMessages x2, res_response = currentResponse x2,
                  res_sessionId = currentSessionId x2, res_aborted = signal_aborted x2,
                  res_modelUsed = (case modelToUse a overrideModel of
                                     Some m \<Rightarrow> m | None \<Rightarrow> ''Default''),
                  res_stderrOutput = join_lines (stderrLines x2)\<rparr>,
               x2\<lparr>timeoutId := None\<rparr>)
         else (case ending run of
                 Throws error \<Rightarrow>
                   if abort_like error (signal_aborted x2)
                   then (Resolved (aborted_result x2), leave_timer_armed x2)
                   else (Rejected (error\<lparr>e_stderrOutput := Some (join_lines (stderrLines x2))\<rparr>),
                         leave_timer_armed x2)
               | _ \<Rightarrow> (NeverSettles, wait_forever x2)))"

subsection \<open>sendToClaudeCode: the first attempt and the retry\<close>

definition exit_code_1_signature :: "js_error \<Rightarrow> bool" where
  "exit_code_1_signature error =
     (e_message error \<noteq> []
      \<and> (str_includes (e_message error) ''exit code 1''
         \<or> str_includes (e_message error) ''exited with code 1''))"

definition fallback_model :: string where
  "fallback_model = ''claude-sonnet-4-20250514''"

text \<open>The note appended to the error of a failed retry; it starts with two line breaks
  and the warning sign (six bytes in UTF-8).\<close>

definition both_failed_note :: string where
  "both_failed_note =
     [CHR 0x0A, CHR 0x0A, CHR 0xE2, CHR 0x9A, CHR 0xA0, CHR 0xEF, CHR 0xB8, CHR 0x8F]
     @ '' Both default model and Sonnet 4 encountered errors. Please wait a moment and try again.''"

text \<open>\<open>'total_cost_usd' in lastMessage\<close> throws a TypeError when the attempt returned no
  message, since \<open>lastMessage\<close> is \<open>undefined\<close> then.\<close>

definition in_undefined_TypeError :: js_error where
  "in_undefined_TypeError =
     \<lparr>e_name = ''TypeError'',
      e_message = ''Cannot use 'in' operator to search for 'total_cost_usd' in undefined'',
      e_stderrOutput = None\<rparr>"

definition cancelled_response :: "string \<Rightarrow> string option \<Rightarrow> claude_response" where
  "cancelled_response model err =
     \<lparr>response = ''Request was cancelled'', r_sessionId = None, cost = None, duration = None,
      modelUsed = Some model, stderrOutput = err\<rparr>"

text \<open>The retry (lines 270-298), entered from the outer \<open>catch\<close>.\<close>

definition retry_with_fallback ::
  "send_args \<Rightarrow> query_run \<Rightarrow> exec_state \<Rightarrow> claude_response settled \<times> exec_state" where
  "retry_with_fallback a run2 x1 =
     (let (r2, x2) = executeWithErrorHandling a (Some fallback_model) True run2 x1;
          retry_catch = (\<lambda>retryError.
            if abort_like retryError (signal_aborted x2)
            then Resolved (cancelled_response ''Claude Sonnet 4'' None)
            else Rejected (retryError\<lparr>e_message := e_message retryError @ both_failed_note\<rparr>))
      in case r2 of
           NeverSettles \<Rightarrow> (NeverSettles, x2)
         | Rejected retryError \<Rightarrow> (retry_catch retryError, x2)
         | Resolved retryResult \<Rightarrow>
             if res_aborted retryResult
             then (Resolved (cancelled_response (res_modelUsed retryResult) None), x2)
             else (case res_messages retryResult of
                     [] \<Rightarrow> (retry_catch in_undefined_TypeError, x2)
                   | _ \<Rightarrow>
                       (Resolved
                          \<lparr>response = (if res_response retryResult \<noteq> []
                                       then res_response retryResult
                                       else ''No response received''),
                           r_sessionId = res_sessionId retryResult,
                           cost = total_cost_usd (last (res_messages retryResult)),
                           duration = duration_ms (last (res_messages retryResult)),
                           modelUsed = Some (res_modelUsed retryResult),
                           stderrOutput = None\<rparr>,
                        x2)))"

text \<open>The outer \<open>catch\<close> (lines 264-302).\<close>

definition first_catch ::
  "send_args \<Rightarrow> js_error \<Rightarrow> query_run \<Rightarrow> exec_state \<Rightarrow> claude_response settled \<times> exec_state" where
  "first_catch a error run2 x1 =
     (if exit_code_1_signature error then retry_with_fallback a run2 x1
      else (Rejected error, x1))"

definition client_init :: "bool \<Rightarrow> exec_state" where
  "client_init is_aborted =
     \<lparr>signal_aborted = is_aborted, stderrLines = [], streamed = [], chunks = [], queries = [],
      stale_timers = [], messageCount = 0, timeoutId = None, currentMessages = [],
      currentResponse = [], currentSessionId = None\<rparr>"

text \<open>\<open>sendToClaudeCode\<close>, given whether the controller is aborted at the call and the
  runs of the first query and of the retry query (used only when there is a retry).\<close>

definition sendToClaudeCode ::
  "send_args \<Rightarrow> bool \<Rightarrow> query_run \<Rightarrow> query_run \<Rightarrow> claude_response settled \<times> exec_state" where
  "sendToClaudeCode a is_aborted run1 run2 =
     (let (r1, x1) = executeWithErrorHandling a None False run1 (client_init is_aborted)
      in case r1 of
           NeverSettles \<Rightarrow> (NeverSettles, x1)
         | Rejected error \<Rightarrow> first_catch a error run2 x1
         | Resolved result \<Rightarrow>
             if res_aborted result
             then (Resolved (cancelled_response (res_modelUsed result)
                               (Some (res_stderrOutput result))), x1)
             else (case res_messages result of
                     [] \<Rightarrow> first_catch a in_undefined_TypeError run2 x1
                   | _ \<Rightarrow>
                       (Resolved
                          \<lparr>response = (if res_response result \<noteq> [] then res_response result
                                       else ''No response received''),
                           r_sessionId = res_sessionId result,
                           cost = total_cost_usd (last (res_messages result)),
                           duration = duration_ms (last (res_messages result)),
                           modelUsed = Some (res_modelUsed result),
                           stderrOutput = Some (res_stderrOutput result)\<rparr>,
                        x1)))"

section \<open>The workspace write guard (claude/client.ts)\<close>

text \<open>
  \<open>resolve\<close>, \<open>normalize\<close> and \<open>sep\<close> come from \<open>node:path\<close>, here in its POSIX
  flavour (\<open>sep\<close> is the slash). A path is cut at the slashes; empty segments and \<open>.\<close>
  are dropped and \<open>..\<close> removes the segment before it (\<open>normalizeString\<close>). \<open>resolve\<close>
  puts its arguments together from the right until one is absolute, falling back on the
  working directory of the process.
\<close>

fun split_slash :: "string \<Rightarrow> string list" where
  "split_slash [] = [[]]"
| "split_slash (c # cs) =
     (if c = CHR ''/'' then [] # split_slash cs
      else (case split_slash cs of w # ws \<Rightarrow> (c # w) # ws | [] \<Rightarrow> [[c]]))"

fun join_slash :: "string list \<Rightarrow> string" where
  "join_slash [] = []"
| "join_slash [s] = s"
| "join_slash (s # ss) = s @ ''/'' @ join_slash ss"

fun normalize_segments :: "bool \<Rightarrow> string list \<Rightarrow> string list \<Rightarrow> string list" where
  "normalize_segments allowAboveRoot res [] = rev res"
| "normalize_segments allowAboveRoot res (seg # segs) =
     (if seg = [] \<or> seg = ''.'' then normalize_segments allowAboveRoot res segs
      else if seg = ''..''
      then (if res \<noteq> [] \<and> hd res \<noteq> ''..''
            then normalize_segments allowAboveRoot (tl res) segs
            else if allowAboveRoot then normalize_segments allowAboveRoot (''..'' # res) segs
            else normalize_segments allowAboveRoot res segs)
      else normalize_segments allowAboveRoot (seg # res) segs)"

definition normalizeString :: "string \<Rightarrow> bool \<Rightarrow> string" where
  "normalizeString path allowAboveRoot =
     join_slash (normalize_segments allowAboveRoot [] (split_slash path))"

fun resolve_scan :: "string list \<Rightarrow> string \<Rightarrow> string \<times> bool" where
  "resolve_scan [] resolvedPath = (resolvedPath, False)"
| "resolve_scan (p # ps) resolvedPath =
     (if p = [] then resolve_scan ps resolvedPath
      else if hd p = CHR ''/'' then (p @ ''/'' @ resolvedPath, True)
      else resolve_scan ps (p @ ''/'' @ resolvedPath))"

definition resolve :: "string \<Rightarrow> string list \<Rightarrow> string" where
  "resolve process_cwd paths =
     (let (resolvedPath, resolvedAbsolute) = resolve_scan (rev paths @ [process_cwd]) [];
          res = normalizeString resolvedPath (\<not> resolvedAbsolute)
      in if resolvedAbsolute then ''/'' @ res else if res \<noteq> [] then res else ''.'')"

definition normalize :: "string \<Rightarrow> string" where
  "normalize path =
     (if path = [] then ''.''
      else (let isAbsolute = (hd path = CHR ''/'');
                trailingSeparator = (last path = CHR ''/'');
                p = normalizeString path (\<not> isAbsolute)
            in if p = []
               then (if isAbsolute then ''/'' else if trailingSeparator then ''./'' else ''.'')
               else (let p' = (if trailingSeparator then p @ ''/'' else p)
                     in if isAbsolute then ''/'' @ p' else p')))"

text \<open>
  The decision of the guard. The tool input is a record of string values (the path
  entries are cast to strings by the code); only the entries matter.
\<close>

datatype permission = Allow "string \<rightharpoonup> string" | Deny string

definition writeToolPaths :: "string \<rightharpoonup> string" where
  "writeToolPaths =
     [''Write'' \<mapsto> ''file_path'', ''Edit'' \<mapsto> ''file_path'',
      ''NotebookEdit'' \<mapsto> ''notebook_path'']"

text \<open>
  \<open>writeToolPaths\<close> is an object literal, so \<open>writeToolPaths[toolName]\<close> also finds what
  the name inherits from \<open>Object.prototype\<close>: a built-in function, or for \<open>__proto__\<close> the
  prototype itself. Such a value is truthy, and as the key of \<open>input[pathKey]\<close> it is
  converted to a string, the source text of the function as the runtime prints it.
\<close>

definition native_function :: "string \<Rightarrow> string" where
  "native_function name = ''function '' @ name @ ''() { [native code] }''"

definition Object_prototype_functions :: "string list" where
  "Object_prototype_functions =
     [''__defineGetter__'', ''__defineSetter__'', ''hasOwnProperty'',
      ''__lookupGetter__'', ''__lookupSetter__'', ''isPrototypeOf'', ''propertyIsEnumerable'',
      ''toString'', ''valueOf'', ''toLocaleString'']"

definition pathKey_of :: "string \<Rightarrow> string option" where
  "pathKey_of toolName =
     (case writeToolPaths toolName of
        Some key \<Rightarrow> Some key
      | None \<Rightarrow>
          if toolName = ''constructor'' then Some (native_function ''Object'')
          else if toolName \<in> set Object_prototype_functions then Some (native_function toolName)
          else if toolName = ''__proto__'' then Some ''[object Object]''
          else None)"

definition deny_message :: "string \<Rightarrow> string \<Rightarrow> string" where
  "deny_message workspaceRootDir filePath =
     ''Write operations are restricted to the workspace directory ('' @ workspaceRootDir
     @ ''). The path '' @ [CHR 0x22] @ filePath @ [CHR 0x22]
     @ '' is outside the allowed area. You can read files outside workspace but cannot write to them.''"

text \<open>\<open>createWorkspaceWriteGuard(workspaceRootDir, cwd)(toolName, input)\<close>, in a process
  whose working directory is \<open>process_cwd\<close>.\<close>

definition createWorkspaceWriteGuard ::
  "string \<Rightarrow> string \<Rightarrow> string \<Rightarrow> string \<Rightarrow> (string \<rightharpoonup> string) \<Rightarrow> permission" where
  "createWorkspaceWriteGuard process_cwd workspaceRootDir cwd toolName input =
     (let normalizedRoot = normalize (resolve process_cwd [workspaceRootDir])
      in case pathKey_of toolName of
           Some pathKey \<Rightarrow>
             if truthy (input pathKey)
             then (let filePath = the (input pathKey);
                       resolvedPath = normalize (resolve process_cwd [cwd, filePath])
                   in if resolvedPath \<noteq> normalizedRoot
                         \<and> \<not> prefix (normalizedRoot @ ''/'') resolvedPath
                      then Deny (deny_message workspaceRootDir filePath)
                      else Allow input)
             else Allow input
         | None \<Rightarrow> Allow input)"

section \<open>Scenarios\<close>

text \<open>Several messages submitted to one channel, one after the other, with the replies
  they get.\<close>

fun submit_all ::
  "channel_id \<Rightarrow> string option \<Rightarrow> QueuedMessage list \<Rightarrow> bot_state
     \<Rightarrow> submit_reply list \<times> bot_state" where
  "submit_all channelId chanName [] st = ([], st)"
| "submit_all channelId chanName (m # ms) st =
     (let (r, st1) = onMessage channelId chanName m st;
          (rs, st2) = submit_all channelId chanName ms st1
      in (r # rs, st2))"

text \<open>The channel and the message a dispatch was made for.\<close>

definition request :: "dispatch \<Rightarrow> channel_id \<times> QueuedMessage" where
  "request d = (d_channel d, \<lparr>ctx = d_ctx d, prompt = d_prompt d\<rparr>)"

text \<open>Of a run of a query: the stderr lines it writes, whether an event is a message, and
  the time that passes.\<close>

fun stderr_of :: "stream_event list \<Rightarrow> string list" where
  "stderr_of [] = []"
| "stderr_of (Stderr l # es) = l # stderr_of es"
| "stderr_of (e # es) = stderr_of es"

fun is_message :: "stream_event \<Rightarrow> bool" where
  "is_message (Message m) = True"
| "is_message e = False"

fun elapsed :: "stream_event list \<Rightarrow> nat" where
  "elapsed [] = 0"
| "elapsed (Elapse d # es) = d + elapsed es"
| "elapsed (e # es) = elapsed es"

text \<open>The location a list of paths resolves to, as the names on the way down from the
  file system root (empty for the root itself), and what makes a string such a name.\<close>

definition resolve_segments :: "string \<Rightarrow> string list \<Rightarrow> string list" where
  "resolve_segments process_cwd paths =
     normalize_segments False []
       (split_slash (fst (resolve_scan (rev paths @ [process_cwd]) [])))"

definition clean :: "string \<Rightarrow> bool" where
  "clean seg = (seg \<noteq> [] \<and> seg \<noteq> ''.'' \<and> seg \<noteq> ''..'' \<and> CHR ''/'' \<notin> set seg)"

section \<open>Example states\<close>

text \<open>A bot with work directory \<open>/w\<close> and no sessions; the same bot after a first
  message on channel \<open>A\<close> has started a task; then with two more messages queued on
  \<open>A\<close>; with a message on channel \<open>B\<close> instead; and after the first task on \<open>A\<close> has
  completed with a session id and a second message has started the next task.\<close>

definition bot_init :: bot_state where
  "bot_init = \<lparr>workDir = ''/w'', channelSessions = Map.empty, activeChannelId = None,
                aborted = (\<lambda>_. False), next_controller = 0, dispatched = []\<rparr>"

definition bot_running_A :: bot_state where
  "bot_running_A = snd (onMessage ''A'' (Some ''general'') \<lparr>ctx = 1, prompt = ''first''\<rparr> bot_init)"

definition bot_queued_A :: bot_state where
  "bot_queued_A = snd (submit_all ''A'' (Some ''general'')
       [\<lparr>ctx = 2, prompt = ''second''\<rparr>, \<lparr>ctx = 3, prompt = ''third''\<rparr>] bot_running_A)"

definition bot_running_A_B :: bot_state where
  "bot_running_A_B =
     snd (onMessage ''B'' (Some ''other'') \<lparr>ctx = 2, prompt = ''second''\<rparr> bot_running_A)"

definition response_A :: claude_response where
  "response_A = \<lparr>response = ''done'', r_sessionId = Some ''sess-A'', cost = Some 1,
                  duration = Some 2, modelUsed = Some ''Default'', stderrOutput = Some []\<rparr>"

definition bot_resumed_A :: bot_state where
  "bot_resumed_A = snd (onMessage ''A'' (Some ''general'') \<lparr>ctx = 2, prompt = ''second''\<rparr>
       (processMessage_resume ''A'' [Inr response_A] bot_running_A))"

text \<open>A call of the client, two errors and a message.\<close>

definition args_A :: send_args where
  "args_A = \<lparr>a_workDir = ''/w/general'', a_prompt = ''first'', a_sessionId = Some ''sess-A'',
             a_onChunk = False, a_onStreamJson = True, a_continueMode = False, a_model = None,
             a_workspaceRootDir = Some ''/w''\<rparr>"

definition exit_1 :: js_error where
  "exit_1 = \<lparr>e_name = ''Error'', e_message = ''exited with code 1'', e_stderrOutput = None\<rparr>"

definition abort_error :: js_error where
  "abort_error = \<lparr>e_name = ''AbortError'', e_message = ''aborted'', e_stderrOutput = None\<rparr>"

definition spawn_error :: js_error where
  "spawn_error = \<lparr>e_name = ''Error'', e_message = ''spawn failed'', e_stderrOutput = None\<rparr>"

definition hello :: sdk_message where
  "hello = \<lparr>msg_type = ''system'', msg_content = None, session_id = Some ''sess-B'',
            total_cost_usd = None, duration_ms = None\<rparr>"

section \<open>Basic facts about the session closures\<close>

lemma getChannelSession_Some:
  "channelSessions st ch = Some s \<Longrightarrow> getChannelSession ch nm st = (s, st)"
  by (simp add: getChannelSession_def)

lemma session_of_Some: "channelSessions st ch = Some s \<Longrightarrow> session_of st ch = s"
  by (simp add: session_of_def getChannelSession_def)

lemma session_busy_active [simp]:
  "session_busy (st\<lparr>activeChannelId := a\<rparr>) s = session_busy st s"
  by (simp add: session_busy_def split: option.splits)

lemma session_busy_sessions [simp]:
  "session_busy (st\<lparr>channelSessions := m\<rparr>) s = session_busy st s"
  by (simp add: session_busy_def split: option.splits)

lemma session_busy_queue [simp]:
  "session_busy st (s\<lparr>messageQueue := q\<rparr>) = session_busy st s"
  by (simp add: session_busy_def)

text \<open>While the active channel is \<open>ch\<close> and has a session, the closures read and write
  that session.\<close>

lemma setController_active:
  assumes "activeChannelId st = Some ch" "ch \<noteq> []" "channelSessions st ch = Some s"
  shows "deps_setClaudeController c st =
           st\<lparr>channelSessions := (channelSessions st)(ch \<mapsto> s\<lparr>controller := c\<rparr>)\<rparr>"
  using assms
  by (simp add: deps_setClaudeController_def setController_def getChannelSession_Some
      update_session_def)

lemma setSessionId_active:
  assumes "activeChannelId st = Some ch" "ch \<noteq> []" "channelSessions st ch = Some s"
  shows "deps_setClaudeSessionId sid st =
           st\<lparr>channelSessions := (channelSessions st)(ch \<mapsto> s\<lparr>sessionId := sid\<rparr>)\<rparr>"
  using assms
  by (simp add: deps_setClaudeSessionId_def setSessionId_def getChannelSession_Some
      update_session_def)

lemma claudeController_active:
  assumes "activeChannelId st = Some ch" "ch \<noteq> []" "channelSessions st ch = Some s"
  shows "deps_claudeController st = (controller s, st)"
  using assms
  by (simp add: deps_claudeController_def getController_def getChannelSession_Some)

lemma onClaude_settle_active:
  assumes "activeChannelId st = Some ch" "ch \<noteq> []" "channelSessions st ch = Some s"
  shows "onClaude_settle out st =
           st\<lparr>channelSessions := (channelSessions st)
             (ch \<mapsto> s\<lparr>sessionId := (case out of Inr r \<Rightarrow> r_sessionId r | Inl e \<Rightarrow> sessionId s),
                       controller := None\<rparr>)\<rparr>"
  using assms
  by (cases out) (simp_all add: onClaude_settle_def setController_active setSessionId_active)

text \<open>The timer of the handler leaves the controller of the task aborted and the
  controller of the active channel cleared.\<close>

lemma onClaude_timeout_active:
  assumes "activeChannelId st = Some ch" "ch \<noteq> []" "channelSessions st ch = Some s"
  shows "onClaude_timeout c wd st =
           st\<lparr>aborted := (aborted st)(c := True),
              channelSessions := (channelSessions st)(ch \<mapsto> s\<lparr>controller := None\<rparr>)\<rparr>"
proof -
  have "activeChannelId (abort c st) = Some ch" "channelSessions (abort c st) ch = Some s"
    using assms by (simp_all add: abort_def)
  from onClaude_settle_active [OF this(1) assms(2) this(2), of "Inl (TIMEOUT_error wd)"]
  show ?thesis
    by (simp add: onClaude_timeout_def abort_def)
qed

lemma processMessage_start_active:
  assumes "activeChannelId st = Some ch" "ch \<noteq> []" "channelSessions st ch = Some s"
  shows "processMessage_start ch m st =
           st\<lparr>aborted := (case controller s of Some c \<Rightarrow> (aborted st)(c := True)
                                             | None \<Rightarrow> aborted st)
                            (next_controller st := False),
              next_controller := Suc (next_controller st),
              channelSessions := (channelSessions st)
                (ch \<mapsto> s\<lparr>controller := Some (next_controller st)\<rparr>),
              dispatched := dispatched st @
                [\<lparr>d_channel = ch, d_ctx = ctx m, d_prompt = prompt m,
                  d_resume = (if truthy (sessionId s) then sessionId s else None),
                  d_controller = next_controller st\<rparr>]\<rparr>"
  using assms
  by (cases "controller s")
     (simp_all add: processMessage_start_def onClaude_start_def claudeController_active
      session_of_Some new_AbortController_def abort_def setController_active Let_def)

lemma messageQueue_shift_Some:
  "channelSessions st ch = Some s \<Longrightarrow>
   messageQueue_shift ch st =
     (case messageQueue s of
        [] \<Rightarrow> (None, st)
      | next # rest \<Rightarrow>
          (Some next,
           st\<lparr>channelSessions := (channelSessions st)(ch \<mapsto> s\<lparr>messageQueue := rest\<rparr>)\<rparr>))"
  by (simp add: messageQueue_shift_def session_of_Some update_session_def split: list.splits)

lemma onMessage_enter_Some:
  "channelSessions st ch = Some s \<Longrightarrow>
   onMessage_enter ch nm st = st\<lparr>activeChannelId := Some ch\<rparr>"
  by (simp add: onMessage_enter_def getChannelSession_def)

lemma onMessage_busy:
  assumes "channelSessions st ch = Some s" "session_busy st s"
  shows "onMessage ch nm m st =
           (Queued (Suc (length (messageQueue s))),
            st\<lparr>activeChannelId := Some ch,
               channelSessions := (channelSessions st)
                 (ch \<mapsto> s\<lparr>messageQueue := messageQueue s @ [m]\<rparr>)\<rparr>)"
  using assms
  by (simp add: onMessage_def onMessage_enter_Some onMessage_submit_def session_of_Some
      update_session_def)

section \<open>Facts about the example states\<close>

lemma bot_running_A_eq:
  "bot_running_A =
     \<lparr>workDir = ''/w'',
      channelSessions = [''A'' \<mapsto> \<lparr>controller = Some 0, sessionId = None,
         channelWorkDir = ''/w/general'', channelName = Some ''general'', messageQueue = []\<rparr>],
      activeChannelId = Some ''A'',
      aborted = (\<lambda>_. False)(0 := False), next_controller = Suc 0,
      dispatched = [\<lparr>d_channel = ''A'', d_ctx = 1, d_prompt = ''first'', d_resume = None,
                     d_controller = 0\<rparr>]\<rparr>"
  by (simp add: bot_running_A_def bot_init_def onMessage_def onMessage_enter_def
      onMessage_submit_def getChannelSession_def session_of_def session_busy_def
      processMessage_start_def onClaude_start_def getController_def setController_def
      deps_claudeController_def deps_setClaudeController_def
      new_AbortController_def update_session_def Let_def)

lemma bot_running_A_session:
  "channelSessions bot_running_A ''A'' = Some \<lparr>controller = Some 0, sessionId = None,
         channelWorkDir = ''/w/general'', channelName = Some ''general'', messageQueue = []\<rparr>"
  "activeChannelId bot_running_A = Some ''A''" "\<not> aborted bot_running_A 0"
  "next_controller bot_running_A = 1"
  by (simp_all add: bot_running_A_eq)

lemma bot_running_A_busy:
  "session_busy bot_running_A \<lparr>controller = Some 0, sessionId = None,
         channelWorkDir = ''/w/general'', channelName = Some ''general'', messageQueue = []\<rparr>"
  by (simp add: session_busy_def bot_running_A_session)

section \<open>Queueing while busy\<close>

text \<open>
  C1. At the busy test of \<open>onMessage\<close> (line 606): when the channel's controller is
  non-null and not aborted, the message is appended to the channel's queue, the reply is
  the queue length after the append (a 1-based position), and nothing else changes: no
  controller is created and no \<open>onClaude\<close> call is made. Otherwise (controller null or
  aborted) the message is dispatched at once: exactly one \<open>onClaude\<close> call is made.
\<close>

theorem onMessage_submit_busy_or_idle:
  assumes "channelSessions st channelId = Some s"
  shows "(session_busy st s \<longrightarrow>
            onMessage_submit channelId m st =
              (Queued (Suc (length (messageQueue s))),
               st\<lparr>channelSessions := (channelSessions st)
                    (channelId \<mapsto> s\<lparr>messageQueue := messageQueue s @ [m]\<rparr>)\<rparr>))
       \<and> (\<not> session_busy st s \<longrightarrow>
            onMessage_submit channelId m st = (Dispatched, processMessage_start channelId m st)
          \<and> length (dispatched (processMessage_start channelId m st)) = Suc (length (dispatched st)))"
proof (intro conjI impI)
  assume "session_busy st s"
  with assms show "onMessage_submit channelId m st =
      (Queued (Suc (length (messageQueue s))),
       st\<lparr>channelSessions := (channelSessions st)
            (channelId \<mapsto> s\<lparr>messageQueue := messageQueue s @ [m]\<rparr>)\<rparr>)"
    by (simp add: onMessage_submit_def session_of_Some update_session_def)
next
  assume "\<not> session_busy st s"
  with assms show "onMessage_submit channelId m st = (Dispatched, processMessage_start channelId m st)"
    by (simp add: onMessage_submit_def session_of_Some)
next
  show "length (dispatched (processMessage_start channelId m st)) = Suc (length (dispatched st))"
    by (auto simp: processMessage_start_def onClaude_start_def getController_def
        deps_claudeController_def deps_setClaudeController_def
        setController_def getChannelSession_def new_AbortController_def abort_def
        update_session_def Let_def split: prod.splits option.splits)
qed

theorem onMessage_submit_busy_or_idle_witness:
  "onMessage_submit ''A'' \<lparr>ctx = 2, prompt = ''second''\<rparr> bot_running_A =
     (Queued 1,
      bot_running_A\<lparr>channelSessions := (channelSessions bot_running_A)
        (''A'' \<mapsto> \<lparr>controller = Some 0, sessionId = None, channelWorkDir = ''/w/general'',
           channelName = Some ''general'',
           messageQueue = [\<lparr>ctx = 2, prompt = ''second''\<rparr>]\<rparr>)\<rparr>)
   \<and> fst (onMessage_submit ''A'' \<lparr>ctx = 2, prompt = ''second''\<rparr>
        (bot_running_A\<lparr>aborted := (\<lambda>_. True)\<rparr>)) = Dispatched"
proof -
  let ?s = "\<lparr>controller = Some 0, sessionId = None, channelWorkDir = ''/w/general'',
             channelName = Some ''general'', messageQueue = []\<rparr>"
  have a: "channelSessions bot_running_A ''A'' = Some ?s"
    by (simp add: bot_running_A_eq)
  have b: "session_busy bot_running_A ?s"
    by (simp add: bot_running_A_eq session_busy_def)
  have a': "channelSessions (bot_running_A\<lparr>aborted := (\<lambda>_. True)\<rparr>) ''A'' = Some ?s"
    by (simp add: bot_running_A_eq)
  have b': "\<not> session_busy (bot_running_A\<lparr>aborted := (\<lambda>_. True)\<rparr>) ?s"
    by (simp add: session_busy_def)
  from onMessage_submit_busy_or_idle [OF a, of "\<lparr>ctx = 2, prompt = ''second''\<rparr>"] b
    onMessage_submit_busy_or_idle [OF a', of "\<lparr>ctx = 2, prompt = ''second''\<rparr>"] b'
  show ?thesis by simp
qed

section \<open>Draining the queue in order\<close>

lemma submit_all_Cons:
  "submit_all ch nm (m # ms) st =
     (fst (onMessage ch nm m st) # fst (submit_all ch nm ms (snd (onMessage ch nm m st))),
      snd (submit_all ch nm ms (snd (onMessage ch nm m st))))"
  by (simp add: split_beta)

text \<open>Messages submitted to a busy channel are all queued, in order.\<close>

lemma submit_all_busy:
  assumes "channelSessions st ch = Some s" "session_busy st s"
  shows "submit_all ch nm (m # ms) st =
          (map Queued [Suc (length (messageQueue s)) ..<
                       Suc (length (messageQueue s) + length (m # ms))],
           update_session ch (\<lambda>s. s\<lparr>messageQueue := messageQueue s @ m # ms\<rparr>)
             (st\<lparr>activeChannelId := Some ch\<rparr>))"
  using assms
proof (induction ms arbitrary: st s m)
  case Nil
  then show ?case
    by (simp add: onMessage_busy update_session_def)
next
  case (Cons m' ms)
  define s' where "s' = s\<lparr>messageQueue := messageQueue s @ [m]\<rparr>"
  define st' where "st' = st\<lparr>activeChannelId := Some ch,
               channelSessions := (channelSessions st)(ch \<mapsto> s')\<rparr>"
  have step: "onMessage ch nm m st = (Queued (Suc (length (messageQueue s))), st')"
    using Cons.prems(1,2) by (simp add: onMessage_busy st'_def s'_def)
  have pre: "channelSessions st' ch = Some s'" "session_busy st' s'"
    using Cons.prems(2) by (simp_all add: st'_def s'_def)
  have "submit_all ch nm (m # m' # ms) st =
          (Queued (Suc (length (messageQueue s))) # fst (submit_all ch nm (m' # ms) st'),
           snd (submit_all ch nm (m' # ms) st'))"
    by (subst submit_all_Cons) (simp add: step)
  also have "fst (submit_all ch nm (m' # ms) st') =
      map Queued [Suc (length (messageQueue s')) ..<
                  Suc (length (messageQueue s') + length (m' # ms))]"
    by (simp only: Cons.IH [OF pre] fst_conv)
  also have "Queued (Suc (length (messageQueue s))) #
      map Queued [Suc (length (messageQueue s')) ..<
                  Suc (length (messageQueue s') + length (m' # ms))] =
      map Queued [Suc (length (messageQueue s)) ..<
                  Suc (length (messageQueue s) + length (m # m' # ms))]"
    by (simp add: s'_def upt_conv_Cons [of "Suc (length (messageQueue s))"] del: upt_Suc)
  also have "snd (submit_all ch nm (m' # ms) st') =
      update_session ch (\<lambda>s. s\<lparr>messageQueue := messageQueue s @ m' # ms\<rparr>)
             (st'\<lparr>activeChannelId := Some ch\<rparr>)"
    by (simp only: Cons.IH [OF pre] snd_conv)
  also have "\<dots> = update_session ch (\<lambda>s. s\<lparr>messageQueue := messageQueue s @ m # m' # ms\<rparr>)
             (st\<lparr>activeChannelId := Some ch\<rparr>)"
    using Cons.prems(1) by (simp add: s'_def st'_def update_session_def)
  finally show ?case .
qed

text \<open>With \<open>k\<close> tasks settled, the drain has dispatched the first \<open>k\<close> queued messages,
  in queue order, and nothing else.\<close>

lemma drain_dispatches:
  assumes "activeChannelId st = Some ch" "ch \<noteq> []" "channelSessions st ch = Some s"
  shows "map request (dispatched (processMessage_resume ch outs st)) =
           map request (dispatched st) @ map (Pair ch) (take (length outs) (messageQueue s))"
  using assms
proof (induction outs arbitrary: st s)
  case Nil
  then show ?case by simp
next
  case (Cons out outs)
  define s1 where
    "s1 = s\<lparr>sessionId := (case out of Inr r \<Rightarrow> r_sessionId r | Inl e \<Rightarrow> sessionId s),
            controller := None\<rparr>"
  define st1 where "st1 = st\<lparr>channelSessions := (channelSessions st)(ch \<mapsto> s1)\<rparr>"
  have settle: "onClaude_settle out st = st1"
    using Cons.prems by (simp add: onClaude_settle_active st1_def s1_def)
  have l1: "channelSessions st1 ch = Some s1" "messageQueue s1 = messageQueue s"
    "dispatched st1 = dispatched st"
    using Cons.prems by (simp_all add: st1_def s1_def)
  show ?case
  proof (cases "messageQueue s")
    case Nil
    with settle l1 show ?thesis
      by (simp add: messageQueue_shift_Some)
  next
    case (Cons nxt rest)
    define st2 where
      "st2 = st1\<lparr>channelSessions := (channelSessions st1)(ch \<mapsto> s1\<lparr>messageQueue := rest\<rparr>),
                 activeChannelId := Some ch\<rparr>"
    have a2: "activeChannelId st2 = Some ch"
      "channelSessions st2 ch = Some (s1\<lparr>messageQueue := rest\<rparr>)"
      "dispatched st2 = dispatched st"
      by (simp_all add: st2_def l1)
    define st3 where "st3 = processMessage_start ch nxt st2"
    have a3: "activeChannelId st3 = Some ch"
      "channelSessions st3 ch =
         Some (s1\<lparr>messageQueue := rest, controller := Some (next_controller st2)\<rparr>)"
      "map request (dispatched st3) = map request (dispatched st) @ [(ch, nxt)]"
      unfolding st3_def
      by (simp_all add: processMessage_start_active [OF a2(1) \<open>ch \<noteq> []\<close> a2(2)] a2 request_def)
    have "processMessage_resume ch (out # outs) st = processMessage_resume ch outs st3"
      using settle l1 Cons by (simp add: messageQueue_shift_Some st2_def st3_def)
    moreover from Cons.IH [OF a3(1) \<open>ch \<noteq> []\<close> a3(2)] a3(3)
    have "map request (dispatched (processMessage_resume ch outs st3)) =
          map request (dispatched st) @ (ch, nxt) # map (Pair ch) (take (length outs) rest)"
      by simp
    ultimately show ?thesis using Cons by simp
  qed
qed

text \<open>
  With the \<open>onClaude\<close> that has the \<open>try\<close>/\<open>catch\<close>: a channel is busy; the messages
  \<open>m # ms\<close> are submitted to it one after the other (by \<open>onMessage\<close>, nothing else running
  in between). Every one is queued, with positions counting up from the queue length.
  When the running task and then the tasks started for the queue settle with the outcomes
  \<open>outs\<close>, responses or errors, the requests dispatched are those dispatched before,
  followed by the first \<open>length outs\<close> messages of the queue in the order they were
  submitted: the next message is started only when the task before it has settled.
\<close>

lemma caught_drain_in_submission_order:
  assumes "channelSessions st ch = Some s" "session_busy st s" "ch \<noteq> []"
    and "submit_all ch nm (m # ms) st = (replies, st1)"
  shows "replies = map Queued [Suc (length (messageQueue s)) ..<
                               Suc (length (messageQueue s) + length (m # ms))]
       \<and> dispatched st1 = dispatched st
       \<and> map request (dispatched (processMessage_resume ch outs st1)) =
           map request (dispatched st)
           @ map (Pair ch) (take (length outs) (messageQueue s @ m # ms))"
proof -
  from submit_all_busy [OF assms(1,2), of nm m ms] assms(1,4)
  have r: "replies = map Queued [Suc (length (messageQueue s)) ..<
                                 Suc (length (messageQueue s) + length (m # ms))]"
    and st1: "st1 = st\<lparr>activeChannelId := Some ch,
                  channelSessions := (channelSessions st)
                    (ch \<mapsto> s\<lparr>messageQueue := messageQueue s @ m # ms\<rparr>)\<rparr>"
    by (simp_all add: update_session_def)
  from st1 have a: "activeChannelId st1 = Some ch"
    "channelSessions st1 ch = Some (s\<lparr>messageQueue := messageQueue s @ m # ms\<rparr>)"
    "dispatched st1 = dispatched st"
    by simp_all
  from drain_dispatches [OF a(1) assms(3) a(2), of outs] a(3) r show ?thesis
    by simp
qed

lemma caught_drain_in_submission_order_example:
  "fst (submit_all ''A'' (Some ''general'')
          [\<lparr>ctx = 2, prompt = ''second''\<rparr>, \<lparr>ctx = 3, prompt = ''third''\<rparr>] bot_running_A) =
     [Queued 1, Queued 2]
   \<and> map request (dispatched (processMessage_resume ''A''
        [Inr response_A, Inr response_A, Inr response_A]
        (snd (submit_all ''A'' (Some ''general'')
          [\<lparr>ctx = 2, prompt = ''second''\<rparr>, \<lparr>ctx = 3, prompt = ''third''\<rparr>] bot_running_A)))) =
     [(''A'', \<lparr>ctx = 1, prompt = ''first''\<rparr>), (''A'', \<lparr>ctx = 2, prompt = ''second''\<rparr>),
      (''A'', \<lparr>ctx = 3, prompt = ''third''\<rparr>)]
   \<and> map request (dispatched (processMessage_resume ''A''
        [Inr response_A]
        (snd (submit_all ''A'' (Some ''general'')
          [\<lparr>ctx = 2, prompt = ''second''\<rparr>, \<lparr>ctx = 3, prompt = ''third''\<rparr>] bot_running_A)))) =
     [(''A'', \<lparr>ctx = 1, prompt = ''first''\<rparr>), (''A'', \<lparr>ctx = 2, prompt = ''second''\<rparr>)]"
proof -
  have ne: "''A'' \<noteq> []" by simp
  have sub: "submit_all ''A'' (Some ''general'')
          [\<lparr>ctx = 2, prompt = ''second''\<rparr>, \<lparr>ctx = 3, prompt = ''third''\<rparr>] bot_running_A =
        (fst (submit_all ''A'' (Some ''general'')
          [\<lparr>ctx = 2, prompt = ''second''\<rparr>, \<lparr>ctx = 3, prompt = ''third''\<rparr>] bot_running_A),
         snd (submit_all ''A'' (Some ''general'')
          [\<lparr>ctx = 2, prompt = ''second''\<rparr>, \<lparr>ctx = 3, prompt = ''third''\<rparr>] bot_running_A))"
    by (rule prod.collapse [symmetric])
  have d: "map request (dispatched bot_running_A) = [(''A'', \<lparr>ctx = 1, prompt = ''first''\<rparr>)]"
    by (simp add: bot_running_A_eq request_def)
  from caught_drain_in_submission_order [OF bot_running_A_session(1) bot_running_A_busy ne sub,
      of "[Inr response_A, Inr response_A, Inr response_A]"]
    caught_drain_in_submission_order [OF bot_running_A_session(1) bot_running_A_busy ne sub,
      of "[Inr response_A]"] d
  show ?thesis
    by (simp del: submit_all.simps processMessage_resume.simps add: upt_rec)
qed

lemma bot_queued_A_eq:
  "bot_queued_A = bot_running_A\<lparr>channelSessions := (channelSessions bot_running_A)(''A'' \<mapsto>
      \<lparr>controller = Some 0, sessionId = None,
        channelWorkDir = ''/w/general'', channelName = Some ''general'',
        messageQueue = [\<lparr>ctx = 2, prompt = ''second''\<rparr>, \<lparr>ctx = 3, prompt = ''third''\<rparr>]\<rparr>)\<rparr>"
  unfolding bot_queued_A_def
  by (simp add: submit_all_busy [OF bot_running_A_session(1) bot_running_A_busy]
      update_session_def bot_running_A_session del: submit_all.simps)

lemma bot_queued_A_session:
  "channelSessions bot_queued_A ''A'' = Some \<lparr>controller = Some 0, sessionId = None,
      channelWorkDir = ''/w/general'', channelName = Some ''general'',
      messageQueue = [\<lparr>ctx = 2, prompt = ''second''\<rparr>, \<lparr>ctx = 3, prompt = ''third''\<rparr>]\<rparr>"
  "activeChannelId bot_queued_A = Some ''A''" "\<not> aborted bot_queued_A 0"
  by (simp_all add: bot_queued_A_eq bot_running_A_session)

text \<open>As long as every task returns a response, the two copies of \<open>onClaude\<close> drain the
  queue alike.\<close>

lemma uncaught_drain_of_responses:
  "processMessage_resume_uncaught ch (map Inr rs) st =
     (None, processMessage_resume ch (map Inr rs) st)"
  by (induction rs arbitrary: st)
     (simp_all add: onClaude_settle_uncaught_def onClaude_settle_def split: prod.splits option.splits)

text \<open>An error of the task leaves the drain without the \<open>try\<close>/\<open>catch\<close> at once, with
  the state as it was.\<close>

lemma uncaught_drain_error:
  "processMessage_resume_uncaught ch (Inl e # outs) st = (Some e, st)"
  by (simp add: onClaude_settle_uncaught_def)

lemma spawn_error_rejects:
  "fst (sendToClaudeCode args_A False
          \<lparr>events = [Stderr ''boom''], ending = Throws spawn_error\<rparr>
          \<lparr>events = [], ending = Ends\<rparr>) =
     Rejected (spawn_error\<lparr>e_stderrOutput := Some ''boom''\<rparr>)"
proof -
  have n143: "\<not> str_includes ''spawn failed'' ''exited with code 143''"
    by code_simp
  have nsig: "\<not> exit_code_1_signature
       \<lparr>e_name = ''Error'', e_message = ''spawn failed'', e_stderrOutput = Some ''boom''\<rparr>"
    by code_simp
  show ?thesis
    by (simp add: sendToClaudeCode_def executeWithErrorHandling_def start_attempt_def
        client_init_def abort_like_def leave_timer_armed_def first_catch_def spawn_error_def
        n143 nsig)
qed

text \<open>
  C2 fails on the code with the \<open>onClaude\<close> that has no \<open>try\<close>/\<open>catch\<close>. A task is
  running on channel \<open>A\<close> for the message \<open>first\<close>, and \<open>second\<close> and \<open>third\<close> have been
  queued. The query of the running task throws an error that is neither an abort nor an
  exit with code 1, so \<open>sendToClaudeCode\<close> throws it. The error leaves \<open>onClaude\<close> and
  \<open>processMessage\<close> before the queue is looked at: nothing more is dispatched, the two
  messages stay in the queue, and the controller stays set, so the channel stays busy.
  With the \<open>onClaude\<close> that catches the error, the same outcomes dispatch all three
  messages in order.
\<close>

theorem error_leaves_queue_undispatched:
  "fst (sendToClaudeCode args_A False
          \<lparr>events = [Stderr ''boom''], ending = Throws spawn_error\<rparr>
          \<lparr>events = [], ending = Ends\<rparr>) =
     Rejected (spawn_error\<lparr>e_stderrOutput := Some ''boom''\<rparr>)
   \<and> fst (processMessage_resume_uncaught ''A''
          [Inl (spawn_error\<lparr>e_stderrOutput := Some ''boom''\<rparr>), Inr response_A, Inr response_A]
          bot_queued_A) =
     Some (spawn_error\<lparr>e_stderrOutput := Some ''boom''\<rparr>)
   \<and> map request (dispatched (snd (processMessage_resume_uncaught ''A''
          [Inl (spawn_error\<lparr>e_stderrOutput := Some ''boom''\<rparr>), Inr response_A, Inr response_A]
          bot_queued_A))) =
     [(''A'', \<lparr>ctx = 1, prompt = ''first''\<rparr>)]
   \<and> messageQueue (session_of (snd (processMessage_resume_uncaught ''A''
          [Inl (spawn_error\<lparr>e_stderrOutput := Some ''boom''\<rparr>), Inr response_A, Inr response_A]
          bot_queued_A)) ''A'') =
     [\<lparr>ctx = 2, prompt = ''second''\<rparr>, \<lparr>ctx = 3, prompt = ''third''\<rparr>]
   \<and> session_busy (snd (processMessage_resume_uncaught ''A''
          [Inl (spawn_error\<lparr>e_stderrOutput := Some ''boom''\<rparr>), Inr response_A, Inr response_A]
          bot_queued_A))
        (session_of (snd (processMessage_resume_uncaught ''A''
          [Inl (spawn_error\<lparr>e_stderrOutput := Some ''boom''\<rparr>), Inr response_A, Inr response_A]
          bot_queued_A)) ''A'')
   \<and> map request (dispatched (processMessage_resume ''A''
          [Inl (spawn_error\<lparr>e_stderrOutput := Some ''boom''\<rparr>), Inr response_A, Inr response_A]
          bot_queued_A)) =
     [(''A'', \<lparr>ctx = 1, prompt = ''first''\<rparr>), (''A'', \<lparr>ctx = 2, prompt = ''second''\<rparr>),
      (''A'', \<lparr>ctx = 3, prompt = ''third''\<rparr>)]"
proof -
  have ne: "''A'' \<noteq> []" by simp
  have d: "map request (dispatched bot_queued_A) = [(''A'', \<lparr>ctx = 1, prompt = ''first''\<rparr>)]"
    by (simp add: bot_queued_A_eq bot_running_A_eq request_def)
  have u: "processMessage_resume_uncaught ''A''
          [Inl (spawn_error\<lparr>e_stderrOutput := Some ''boom''\<rparr>), Inr response_A, Inr response_A]
          bot_queued_A = (Some (spawn_error\<lparr>e_stderrOutput := Some ''boom''\<rparr>), bot_queued_A)"
    by (simp add: onClaude_settle_uncaught_def)
  show ?thesis
    unfolding u
    using drain_dispatches [OF bot_queued_A_session(2) ne bot_queued_A_session(1),
        of "[Inl (spawn_error\<lparr>e_stderrOutput := Some ''boom''\<rparr>), Inr response_A, Inr response_A]"]
    by (simp add: spawn_error_rejects d session_of_Some [OF bot_queued_A_session(1)]
        session_busy_def bot_queued_A_session(3) del: processMessage_resume.simps)
qed

section \<open>Cancelling\<close>

lemma onClaudeCancel_active:
  assumes "activeChannelId st = Some ch" "ch \<noteq> []" "channelSessions st ch = Some s"
  shows "onClaudeCancel st =
           (case controller s of
              None \<Rightarrow> (False, st)
            | Some c \<Rightarrow>
                (True, st\<lparr>aborted := (aborted st)(c := True),
                          channelSessions := (channelSessions st)
                            (ch \<mapsto> s\<lparr>controller := None, sessionId := None\<rparr>)\<rparr>))"
proof (cases "controller s")
  case None
  with assms show ?thesis
    by (simp add: onClaudeCancel_def claudeController_active)
next
  case (Some c)
  define st1 where "st1 = abort c st"
  have a1: "activeChannelId st1 = Some ch" "channelSessions st1 ch = Some s"
    using assms by (simp_all add: st1_def abort_def)
  define st2 where "st2 = deps_setClaudeController None st1"
  have st2: "st2 = st1\<lparr>channelSessions := (channelSessions st1)(ch \<mapsto> s\<lparr>controller := None\<rparr>)\<rparr>"
    unfolding st2_def by (rule setController_active [OF a1(1) assms(2) a1(2)])
  then have a2: "activeChannelId st2 = Some ch"
    "channelSessions st2 ch = Some (s\<lparr>controller := None\<rparr>)"
    using a1 by simp_all
  have "deps_setClaudeSessionId None st2 =
      st2\<lparr>channelSessions := (channelSessions st2)
            (ch \<mapsto> s\<lparr>controller := None, sessionId := None\<rparr>)\<rparr>"
    by (rule setSessionId_active [OF a2(1) assms(2) a2(2)])
  with Some assms show ?thesis
    by (simp add: onClaudeCancel_def claudeController_active st2
        st1_def [symmetric] st2_def [symmetric])
       (simp add: st1_def abort_def)
qed

lemma cancel_command_active:
  assumes "ch \<noteq> []" "channelSessions st ch = Some s"
  shows "cancel_command (Some ch) st =
           (case controller s of
              None \<Rightarrow> (False, st\<lparr>activeChannelId := Some ch\<rparr>)
            | Some c \<Rightarrow>
                (True, st\<lparr>activeChannelId := Some ch,
                          aborted := (aborted st)(c := True),
                          channelSessions := (channelSessions st)
                            (ch \<mapsto> s\<lparr>controller := None, sessionId := None\<rparr>)\<rparr>))"
proof -
  have a: "activeChannelId (st\<lparr>activeChannelId := Some ch\<rparr>) = Some ch"
    "channelSessions (st\<lparr>activeChannelId := Some ch\<rparr>) ch = Some s"
    using assms by simp_all
  show ?thesis
    using assms(1)
    by (simp add: cancel_command_def setChannel_def onClaudeCancel_active [OF a(1) assms(1) a(2)]
        split: option.splits)
qed

text \<open>
  C3, as the claim states it, fails: channel \<open>A\<close> runs a task and has two messages
  queued; the cancel command answers that it cancelled, and both messages are still in the
  queue afterwards. (The command's result is the boolean alone; there is no count of
  discarded items.)
\<close>

theorem cancel_keeps_queue:
  "fst (cancel_command (Some ''A'') bot_queued_A) = True
   \<and> messageQueue (session_of (snd (cancel_command (Some ''A'') bot_queued_A)) ''A'') =
       [\<lparr>ctx = 2, prompt = ''second''\<rparr>, \<lparr>ctx = 3, prompt = ''third''\<rparr>]"
proof -
  have ne: "''A'' \<noteq> []" by simp
  show ?thesis
    by (simp add: cancel_command_active [OF ne bot_queued_A_session(1)]
        session_of_def getChannelSession_def)
qed

text \<open>
  C3, amended. The cancel command on a channel that has a session: when the controller
  is set, the command answers \<open>True\<close>, aborts that controller and sets the channel's
  controller and session id to null; the queue keeps its items; the channel is not busy
  afterwards, so the next message is dispatched at once. When the controller is null, the
  command answers \<open>False\<close> and the sessions are unchanged (only the active channel
  becomes this channel).
\<close>

theorem cancel_command_effect:
  assumes "ch \<noteq> []" "channelSessions st ch = Some s"
  shows "cancel_command (Some ch) st =
           (case controller s of
              None \<Rightarrow> (False, st\<lparr>activeChannelId := Some ch\<rparr>)
            | Some c \<Rightarrow>
                (True, st\<lparr>activeChannelId := Some ch,
                          aborted := (aborted st)(c := True),
                          channelSessions := (channelSessions st)
                            (ch \<mapsto> s\<lparr>controller := None, sessionId := None\<rparr>)\<rparr>))
       \<and> \<not> session_busy (snd (cancel_command (Some ch) st))
             (session_of (snd (cancel_command (Some ch) st)) ch)
       \<and> fst (onMessage_submit ch m (snd (cancel_command (Some ch) st))) = Dispatched
       \<and> messageQueue (session_of (snd (cancel_command (Some ch) st)) ch) = messageQueue s"
proof -
  note eq = cancel_command_active [OF assms]
  have nb: "\<not> session_busy (snd (cancel_command (Some ch) st))
             (session_of (snd (cancel_command (Some ch) st)) ch)"
    using assms(2)
    by (cases "controller s") (simp_all add: eq session_of_Some session_busy_def)
  have "messageQueue (session_of (snd (cancel_command (Some ch) st)) ch) = messageQueue s"
    using assms(2)
    by (cases "controller s") (simp_all add: eq session_of_Some)
  with eq nb show ?thesis
    by (simp add: onMessage_submit_def)
qed

theorem cancel_command_effect_witness:
  "cancel_command (Some ''A'') bot_queued_A =
     (True, bot_queued_A\<lparr>activeChannelId := Some ''A'',
              aborted := (aborted bot_queued_A)(0 := True),
              channelSessions := (channelSessions bot_queued_A)(''A'' \<mapsto>
                \<lparr>controller = None, sessionId = None,
                  channelWorkDir = ''/w/general'', channelName = Some ''general'',
                  messageQueue = [\<lparr>ctx = 2, prompt = ''second''\<rparr>,
                                  \<lparr>ctx = 3, prompt = ''third''\<rparr>]\<rparr>)\<rparr>)
   \<and> fst (onMessage_submit ''A'' \<lparr>ctx = 4, prompt = ''fourth''\<rparr>
            (snd (cancel_command (Some ''A'') bot_queued_A))) = Dispatched"
proof -
  have ne: "''A'' \<noteq> []" by simp
  note th = cancel_command_effect [OF ne bot_queued_A_session(1),
      of "\<lparr>ctx = 4, prompt = ''fourth''\<rparr>"]
  from th have "cancel_command (Some ''A'') bot_queued_A =
     (True, bot_queued_A\<lparr>activeChannelId := Some ''A'',
              aborted := (aborted bot_queued_A)(0 := True),
              channelSessions := (channelSessions bot_queued_A)(''A'' \<mapsto>
                \<lparr>controller = None, sessionId = None,
                  channelWorkDir = ''/w/general'', channelName = Some ''general'',
                  messageQueue = [\<lparr>ctx = 2, prompt = ''second''\<rparr>,
                                  \<lparr>ctx = 3, prompt = ''third''\<rparr>]\<rparr>)\<rparr>)"
    by simp
  moreover from th have "fst (onMessage_submit ''A'' \<lparr>ctx = 4, prompt = ''fourth''\<rparr>
            (snd (cancel_command (Some ''A'') bot_queued_A))) = Dispatched"
    by blast
  ultimately show ?thesis by blast
qed

section \<open>The stored session id\<close>

lemma bot_resumed_A_session:
  "channelSessions bot_resumed_A ''A'' = Some \<lparr>controller = Some 1, sessionId = Some ''sess-A'',
      channelWorkDir = ''/w/general'', channelName = Some ''general'', messageQueue = []\<rparr>"
  "activeChannelId bot_resumed_A = Some ''A''"
  "map d_resume (dispatched bot_resumed_A) = [None, Some ''sess-A'']"
proof -
  have ne: "''A'' \<noteq> []" by simp
  define st1 where "st1 = processMessage_resume ''A'' [Inr response_A] bot_running_A"
  have st1: "st1 = bot_running_A\<lparr>channelSessions := (channelSessions bot_running_A)(''A'' \<mapsto>
      \<lparr>controller = None, sessionId = Some ''sess-A'',
        channelWorkDir = ''/w/general'', channelName = Some ''general'', messageQueue = []\<rparr>)\<rparr>"
    unfolding st1_def
    by (simp add: onClaude_settle_active [OF bot_running_A_session(2) ne bot_running_A_session(1)]
        messageQueue_shift_Some response_A_def)
  have e: "onMessage_enter ''A'' (Some ''general'') st1 = st1"
    by (simp add: st1 onMessage_enter_def getChannelSession_def bot_running_A_session)
  have a: "activeChannelId st1 = Some ''A''" "channelSessions st1 ''A'' = Some
      \<lparr>controller = None, sessionId = Some ''sess-A'',
        channelWorkDir = ''/w/general'', channelName = Some ''general'', messageQueue = []\<rparr>"
    "next_controller st1 = 1" "map d_resume (dispatched st1) = [None]"
    by (simp_all add: st1 bot_running_A_session) (simp add: bot_running_A_eq)
  have "bot_resumed_A = processMessage_start ''A'' \<lparr>ctx = 2, prompt = ''second''\<rparr> st1"
    unfolding bot_resumed_A_def st1_def [symmetric]
    by (simp add: onMessage_def e onMessage_submit_def session_of_Some [OF a(2)] session_busy_def)
  then have eq: "bot_resumed_A =
     st1\<lparr>aborted := (aborted st1)(1 := False), next_controller := Suc 1,
         channelSessions := (channelSessions st1)(''A'' \<mapsto>
           \<lparr>controller = Some 1, sessionId = Some ''sess-A'',
             channelWorkDir = ''/w/general'', channelName = Some ''general'', messageQueue = []\<rparr>),
         dispatched := dispatched st1 @
           [\<lparr>d_channel = ''A'', d_ctx = 2, d_prompt = ''second'',
             d_resume = Some ''sess-A'', d_controller = 1\<rparr>]\<rparr>"
    by (simp add: processMessage_start_active [OF a(1) ne a(2)] a)
  show "channelSessions bot_resumed_A ''A'' = Some \<lparr>controller = Some 1,
      sessionId = Some ''sess-A'',
      channelWorkDir = ''/w/general'', channelName = Some ''general'', messageQueue = []\<rparr>"
    "activeChannelId bot_resumed_A = Some ''A''"
    "map d_resume (dispatched bot_resumed_A) = [None, Some ''sess-A'']"
    unfolding eq by (simp_all add: a)
qed

lemma new_command_clears:
  assumes "ch \<noteq> []" "channelSessions st ch = Some s"
  shows "sessionId (session_of (new_command (Some ch) st) ch) = None"
proof -
  have a: "activeChannelId (st\<lparr>activeChannelId := Some ch\<rparr>) = Some ch"
    "channelSessions (st\<lparr>activeChannelId := Some ch\<rparr>) ch = Some s"
    using assms by simp_all
  have "\<exists>b st' s'. onClaudeCancel (st\<lparr>activeChannelId := Some ch\<rparr>) = (b, st')
      \<and> activeChannelId st' = Some ch \<and> channelSessions st' ch = Some s'"
    by (cases "controller s") (auto simp: onClaudeCancel_active [OF a(1) assms(1) a(2)] assms)
  then obtain b st' s' where c: "onClaudeCancel (st\<lparr>activeChannelId := Some ch\<rparr>) = (b, st')"
    and a': "activeChannelId st' = Some ch" "channelSessions st' ch = Some s'"
    by blast
  show ?thesis
    using assms(1)
    by (simp add: new_command_def setChannel_def c setSessionId_active [OF a'(1) assms(1) a'(2)]
        session_of_def getChannelSession_def)
qed

text \<open>
  C9, as the claim states it, fails. Channel \<open>A\<close> has the session id \<open>sess-A\<close> stored
  and runs a task that was started with it. The cancel command clears the stored id; and
  so does the task when it settles as aborted, since its response ("Request was
  cancelled") carries no session id.
\<close>

theorem cancel_clears_session_id:
  "sessionId (session_of bot_resumed_A ''A'') = Some ''sess-A''
   \<and> sessionId (session_of (snd (cancel_command (Some ''A'') bot_resumed_A)) ''A'') = None
   \<and> sessionId (session_of
        (onClaude_settle (Inr (cancelled_response ''Default'' (Some []))) bot_resumed_A) ''A'')
       = None"
proof -
  have ne: "''A'' \<noteq> []" by simp
  show ?thesis
    by (simp add: session_of_Some [OF bot_resumed_A_session(1)]
        cancel_command_active [OF ne bot_resumed_A_session(1)]
        onClaude_settle_active [OF bot_resumed_A_session(2) ne bot_resumed_A_session(1)]
        cancelled_response_def)
       (simp add: session_of_def getChannelSession_def)
qed

text \<open>
  C9, amended. For a channel that has a session and is the active channel when the
  operation runs: a task that returns a response overwrites the stored session id with
  the id in the response, clearing it when the response has none, as the response of an
  aborted task has; a task that ends in an error keeps it; the cancel command clears it
  when the controller is set and keeps it otherwise; the new command clears it; starting
  a task and submitting a message keep it.
\<close>

theorem session_id_effects:
  assumes "activeChannelId st = Some ch" "ch \<noteq> []" "channelSessions st ch = Some s"
  shows "sessionId (session_of (onClaude_settle (Inr r) st) ch) = r_sessionId r
       \<and> r_sessionId (cancelled_response model err) = None
       \<and> sessionId (session_of (onClaude_settle (Inl e) st) ch) = sessionId s
       \<and> sessionId (session_of (snd (cancel_command (Some ch) st)) ch) =
           (if controller s = None then sessionId s else None)
       \<and> sessionId (session_of (new_command (Some ch) st) ch) = None
       \<and> sessionId (session_of (processMessage_start ch m st) ch) = sessionId s
       \<and> sessionId (session_of (snd (onMessage_submit ch m st)) ch) = sessionId s"
proof (intro conjI)
  show "sessionId (session_of (onClaude_settle (Inr r) st) ch) = r_sessionId r"
    by (simp add: onClaude_settle_active [OF assms] session_of_def getChannelSession_def)
  show "r_sessionId (cancelled_response model err) = None"
    by (simp add: cancelled_response_def)
  show "sessionId (session_of (onClaude_settle (Inl e) st) ch) = sessionId s"
    by (simp add: onClaude_settle_active [OF assms] session_of_def getChannelSession_def)
  show "sessionId (session_of (snd (cancel_command (Some ch) st)) ch) =
           (if controller s = None then sessionId s else None)"
    using assms(3)
    by (cases "controller s")
       (simp_all add: cancel_command_active [OF assms(2,3)] session_of_def getChannelSession_def)
  show "sessionId (session_of (new_command (Some ch) st) ch) = None"
    by (rule new_command_clears [OF assms(2,3)])
  show "sessionId (session_of (processMessage_start ch m st) ch) = sessionId s"
    by (simp add: processMessage_start_active [OF assms] session_of_def getChannelSession_def)
  show "sessionId (session_of (snd (onMessage_submit ch m st)) ch) = sessionId s"
    using assms(3)
    by (simp add: onMessage_submit_def session_of_Some [OF assms(3)]
        processMessage_start_active [OF assms] update_session_def)
       (simp add: session_of_def getChannelSession_def)
qed

theorem session_id_effects_witness:
  "sessionId (session_of (onClaude_settle (Inr response_A) bot_running_A) ''A'') = Some ''sess-A''
   \<and> sessionId (session_of (onClaude_settle (Inl spawn_error) bot_resumed_A) ''A'')
       = Some ''sess-A''
   \<and> sessionId (session_of (new_command (Some ''A'') bot_resumed_A) ''A'') = None"
proof -
  have ne: "''A'' \<noteq> []" by simp
  from session_id_effects [OF bot_running_A_session(2) ne bot_running_A_session(1),
      of response_A]
    session_id_effects [OF bot_resumed_A_session(2) ne bot_resumed_A_session(1),
      of _ _ _ spawn_error]
  show ?thesis
    by (simp add: response_A_def)
qed

section \<open>Two channels\<close>

text \<open>Channel \<open>A\<close> runs a task; a message for channel \<open>B\<close> arrives and starts a task
  there, which makes \<open>B\<close> the active channel.\<close>

lemma bot_running_A_B_sessions:
  "channelSessions bot_running_A_B ''A'' =
     Some \<lparr>controller = Some 0, sessionId = None,
           channelWorkDir = ''/w/general'', channelName = Some ''general'', messageQueue = []\<rparr>"
  "channelSessions bot_running_A_B ''B'' =
     Some \<lparr>controller = Some 1, sessionId = None,
           channelWorkDir = ''/w/other'', channelName = Some ''other'', messageQueue = []\<rparr>"
  "activeChannelId bot_running_A_B = Some ''B''"
  "aborted bot_running_A_B 0 = False" "aborted bot_running_A_B 1 = False"
  by (simp_all add: bot_running_A_B_def bot_running_A_eq onMessage_def onMessage_enter_def
      onMessage_submit_def getChannelSession_def session_of_def session_busy_def
      processMessage_start_def onClaude_start_def getController_def setController_def
      deps_claudeController_def deps_setClaudeController_def
      new_AbortController_def update_session_def Let_def)

text \<open>Then the task of \<open>A\<close> completes and its \<open>processMessage\<close> goes on.\<close>

lemma settle_A_while_B_active:
  "processMessage_resume ''A'' [Inr response_A] bot_running_A_B =
     bot_running_A_B\<lparr>channelSessions := (channelSessions bot_running_A_B)
       (''B'' \<mapsto> \<lparr>controller = None, sessionId = Some ''sess-A'',
           channelWorkDir = ''/w/other'', channelName = Some ''other'', messageQueue = []\<rparr>)\<rparr>"
proof -
  have s: "onClaude_settle (Inr response_A) bot_running_A_B =
     bot_running_A_B\<lparr>channelSessions := (channelSessions bot_running_A_B)
       (''B'' \<mapsto> \<lparr>controller = None, sessionId = Some ''sess-A'',
           channelWorkDir = ''/w/other'', channelName = Some ''other'', messageQueue = []\<rparr>)\<rparr>"
    using onClaude_settle_active [OF bot_running_A_B_sessions(3) _ bot_running_A_B_sessions(2),
        of "Inr response_A"]
    by (simp add: response_A_def)
  show ?thesis
    by (simp add: s bot_running_A_B_sessions messageQueue_shift_def session_of_def
        getChannelSession_def)
qed

text \<open>
  C6 fails on the code. In the state above the task of channel \<open>A\<close> completes while
  \<open>B\<close> is the active channel: \<open>setClaudeController(null)\<close> goes to the session of \<open>B\<close>,
  and the controller of \<open>A\<close> stays set and not aborted although no task of \<open>A\<close> runs
  any more. Channel \<open>A\<close> is wedged: its next message is answered "queued" and nothing
  will take it from the queue. In the copy of the handler without \<open>try\<close>/\<open>catch\<close>, a task
  that ends in an error leaves the controller set even with one channel.
\<close>

theorem settle_leaves_handle_set:
  "(let st = processMessage_resume ''A'' [Inr response_A] bot_running_A_B
    in controller (session_of st ''A'') = Some 0 \<and> session_busy st (session_of st ''A'')
       \<and> fst (onMessage ''A'' (Some ''general'') \<lparr>ctx = 3, prompt = ''third''\<rparr> st) = Queued 1)
   \<and> onClaude_settle_uncaught (Inl spawn_error) bot_running_A = (Some spawn_error, bot_running_A)
   \<and> session_busy bot_running_A (session_of bot_running_A ''A'')"
proof -
  let ?sA = "\<lparr>controller = Some 0, sessionId = None,
         channelWorkDir = ''/w/general'', channelName = Some ''general'', messageQueue = []\<rparr>"
  have a: "channelSessions (processMessage_resume ''A'' [Inr response_A] bot_running_A_B) ''A'' =
      Some ?sA"
    unfolding settle_A_while_B_active by (simp add: bot_running_A_B_sessions)
  have b: "session_busy (processMessage_resume ''A'' [Inr response_A] bot_running_A_B) ?sA"
    unfolding settle_A_while_B_active by (simp add: session_busy_def bot_running_A_B_sessions)
  have d: "session_busy bot_running_A (session_of bot_running_A ''A'')"
    by (simp add: session_of_Some [OF bot_running_A_session(1)] bot_running_A_busy)
  show ?thesis
    using onMessage_busy [OF a b] d
    by (simp add: Let_def session_of_Some [OF a] b onClaude_settle_uncaught_def
        del: processMessage_resume.simps)
qed

text \<open>
  C7 fails on the code. In the same run, what the settling task of channel \<open>A\<close> writes
  lands in the session of channel \<open>B\<close>: \<open>B\<close> had no session id and a running task with
  controller 1; afterwards \<open>B\<close> holds the session id of the conversation of \<open>A\<close> and a
  null controller, while its task is still running.
\<close>

theorem settle_writes_other_channel:
  "channelSessions bot_running_A_B ''B'' =
     Some \<lparr>controller = Some 1, sessionId = None,
           channelWorkDir = ''/w/other'', channelName = Some ''other'', messageQueue = []\<rparr>
   \<and> channelSessions (processMessage_resume ''A'' [Inr response_A] bot_running_A_B) ''B'' =
     Some \<lparr>controller = None, sessionId = Some ''sess-A'',
           channelWorkDir = ''/w/other'', channelName = Some ''other'', messageQueue = []\<rparr>"
  unfolding settle_A_while_B_active by (simp add: bot_running_A_B_sessions)

text \<open>When the channel of the settling task is the active channel, every outcome clears
  its controller.\<close>

lemma settle_clears_handle_when_active:
  assumes "activeChannelId st = Some ch" "ch \<noteq> []" "channelSessions st ch = Some s"
  shows "controller (session_of (onClaude_settle out st) ch) = None"
  by (simp add: onClaude_settle_active [OF assms] session_of_def getChannelSession_def)

text \<open>When no other channel's handler runs in between, an operation on the active channel
  leaves every other session as it was.\<close>

lemma other_sessions_unchanged:
  assumes "activeChannelId st = Some ch" "ch \<noteq> []" "channelSessions st ch = Some s"
    and "other \<noteq> ch"
  shows "channelSessions (onClaude_settle out st) other = channelSessions st other"
    and "channelSessions (processMessage_start ch m st) other = channelSessions st other"
    and "channelSessions (snd (cancel_command (Some ch) st)) other = channelSessions st other"
    and "channelSessions (snd (onMessage_submit ch m st)) other = channelSessions st other"
proof -
  show "channelSessions (onClaude_settle out st) other = channelSessions st other"
    using assms(4) by (simp add: onClaude_settle_active [OF assms(1-3)])
  show p: "channelSessions (processMessage_start ch m st) other = channelSessions st other"
    using assms(4) by (simp add: processMessage_start_active [OF assms(1-3)])
  show "channelSessions (snd (cancel_command (Some ch) st)) other = channelSessions st other"
    using assms(4)
    by (cases "controller s") (simp_all add: cancel_command_active [OF assms(2,3)])
  show "channelSessions (snd (onMessage_submit ch m st)) other = channelSessions st other"
    using assms(3,4) p
    by (simp add: onMessage_submit_def session_of_Some [OF assms(3)] update_session_def Let_def)
qed

section \<open>The retry of the client\<close>

lemma TypeError_not_signature: "\<not> exit_code_1_signature in_undefined_TypeError"
  by code_simp

lemma exit_1_signature: "exit_code_1_signature exit_1"
  by code_simp

text \<open>The signature is a substring test: an exit with code 127 has it as well.\<close>

lemma exit_127_signature:
  "exit_code_1_signature
     \<lparr>e_name = ''Error'', e_message = ''exited with code 127'', e_stderrOutput = None\<rparr>"
  by code_simp

lemma exit_1_not_143: "\<not> str_includes ''exited with code 1'' ''exited with code 143''"
  by code_simp

lemma clean_sess_A: "cleanSessionId ''sess-A'' = ''sess-A''"
  by code_simp

lemma for_await_queries: "queries (snd (for_await a es x)) = queries x"
  by (induction a es x rule: for_await.induct)
     (simp_all add: elapse_def resetActivityTimeout_def on_message_def Let_def)

text \<open>A loop that was not left by \<open>break\<close> has read every event of the run.\<close>

lemma for_await_stderr:
  "for_await a es x = (False, x') \<Longrightarrow> stderrLines x' = stderrLines x @ stderr_of es"
  by (induction a es x rule: for_await.induct)
     (auto simp: elapse_def resetActivityTimeout_def on_message_def Let_def split: if_splits)

lemma executeWithErrorHandling_queries:
  "queries (snd (executeWithErrorHandling a ov sk run x)) = queries x @ [queryOptions a ov sk]"
proof -
  obtain b x2 where
    fa: "for_await a (events run) (start_attempt (queryOptions a ov sk) x) = (b, x2)"
    by (cases "for_await a (events run) (start_attempt (queryOptions a ov sk) x)")
  from for_await_queries [of a "events run" "start_attempt (queryOptions a ov sk) x"] fa
  have q2: "queries x2 = queries x @ [queryOptions a ov sk]"
    by (simp add: start_attempt_def)
  show ?thesis
    using fa q2
    by (simp add: executeWithErrorHandling_def leave_timer_armed_def wait_forever_def
        split: stream_end.splits)
qed

text \<open>An attempt throws only what the query threw, with the stderr of the whole call so
  far attached, and never for an abort.\<close>

lemma executeWithErrorHandling_Rejected:
  assumes "executeWithErrorHandling a ov sk run x = (Rejected e, x')"
  shows "\<exists>err. ending run = Throws err
           \<and> e = err\<lparr>e_stderrOutput := Some (join_lines (stderrLines x @ stderr_of (events run)))\<rparr>
           \<and> stderrLines x' = stderrLines x @ stderr_of (events run)
           \<and> \<not> abort_like err (signal_aborted x')"
proof -
  obtain b x2 where
    fa: "for_await a (events run) (start_attempt (queryOptions a ov sk) x) = (b, x2)"
    by (cases "for_await a (events run) (start_attempt (queryOptions a ov sk) x)")
  from assms fa have nb: "\<not> b"
    by (auto simp: executeWithErrorHandling_def split: if_splits)
  with fa for_await_stderr [of a "events run" "start_attempt (queryOptions a ov sk) x" x2]
  have st: "stderrLines x2 = stderrLines x @ stderr_of (events run)"
    by (simp add: start_attempt_def)
  from assms fa nb st show ?thesis
    by (auto simp: executeWithErrorHandling_def leave_timer_armed_def
        split: if_splits stream_end.splits)
qed

lemma Rejected_not_aborted:
  assumes "executeWithErrorHandling a ov sk run x = (Rejected e, x')"
  shows "\<not> signal_aborted x'"
  using executeWithErrorHandling_Rejected [OF assms] by (auto simp: abort_like_def)

lemma queryOptions_retry:
  "q_model (queryOptions a (Some fallback_model) True) = Some fallback_model"
  "q_resume (queryOptions a (Some fallback_model) True) = None"
  by (simp_all add: queryOptions_def modelToUse_def shouldResume_def fallback_model_def)

lemma sendToClaudeCode_queries:
  assumes first: "executeWithErrorHandling a None False run1 (client_init ab) = (r1, x1)"
  shows "queries (snd (sendToClaudeCode a ab run1 run2)) =
      (if (case r1 of Rejected e \<Rightarrow> exit_code_1_signature e | _ \<Rightarrow> False)
       then [queryOptions a None False, queryOptions a (Some fallback_model) True]
       else [queryOptions a None False])"
proof -
  from executeWithErrorHandling_queries [of a None False run1 "client_init ab"] first
  have q1: "queries x1 = [queryOptions a None False]"
    by (simp add: client_init_def)
  obtain r2 x2 where
    second: "executeWithErrorHandling a (Some fallback_model) True run2 x1 = (r2, x2)"
    by (cases "executeWithErrorHandling a (Some fallback_model) True run2 x1")
  from executeWithErrorHandling_queries [of a "Some fallback_model" True run2 x1] second q1
  have q2: "queries x2 = [queryOptions a None False, queryOptions a (Some fallback_model) True]"
    by simp
  have retry: "queries (snd (retry_with_fallback a run2 x1)) =
      [queryOptions a None False, queryOptions a (Some fallback_model) True]"
    using second q2
    by (simp add: retry_with_fallback_def split: settled.splits list.splits)
  show ?thesis
  proof (cases r1)
    case (Resolved r)
    with first q1 show ?thesis
      by (simp add: sendToClaudeCode_def first_catch_def TypeError_not_signature
          split: list.splits)
  next
    case (Rejected e)
    with first q1 retry show ?thesis
      by (simp add: sendToClaudeCode_def first_catch_def)
  next
    case NeverSettles
    with first q1 show ?thesis
      by (simp add: sendToClaudeCode_def)
  qed
qed

lemma sendToClaudeCode_both_fail:
  assumes first: "executeWithErrorHandling a None False run1 (client_init ab) = (Rejected e1, x1)"
    and sig: "exit_code_1_signature e1"
    and second: "executeWithErrorHandling a (Some fallback_model) True run2 x1 = (Rejected e2, x2)"
  shows "sendToClaudeCode a ab run1 run2 =
           (Rejected (e2\<lparr>e_message := e_message e2 @ both_failed_note\<rparr>), x2)"
    and "e_stderrOutput e2 = Some (join_lines (stderr_of (events run1) @ stderr_of (events run2)))"
proof -
  from executeWithErrorHandling_Rejected [OF first]
  have l1: "stderrLines x1 = stderr_of (events run1)"
    by (auto simp: client_init_def)
  from executeWithErrorHandling_Rejected [OF second] obtain err where
    e2: "e2 = err\<lparr>e_stderrOutput := Some (join_lines (stderrLines x1 @ stderr_of (events run2)))\<rparr>"
    and na: "\<not> abort_like err (signal_aborted x2)"
    by blast
  from e2 l1
  show "e_stderrOutput e2 = Some (join_lines (stderr_of (events run1) @ stderr_of (events run2)))"
    by simp
  from e2 na have "\<not> abort_like e2 (signal_aborted x2)"
    by (simp add: abort_like_def)
  with first sig second show "sendToClaudeCode a ab run1 run2 =
           (Rejected (e2\<lparr>e_message := e_message e2 @ both_failed_note\<rparr>), x2)"
    by (simp add: sendToClaudeCode_def first_catch_def retry_with_fallback_def)
qed

text \<open>
  Let the first attempt of \<open>sendToClaudeCode\<close> end as \<open>r1\<close>. The call makes a
  second query exactly when the first attempt threw an error with the exit-code-1
  signature (the message contains \<open>exit code 1\<close> or \<open>exited with code 1\<close>), and never a
  third; in every other case (the attempt returned, was aborted by a cancel or by a timer,
  threw another error, or never settled) there is the one query only. The second query
  has the fallback model and no \<open>resume\<close> option, whatever session id was passed. When the
  retry throws as well, the call throws the second error with the note about both models
  appended to its message, and the error carries the stderr lines of both attempts.
\<close>

lemma retry_when_signature:
  assumes first: "executeWithErrorHandling a None False run1 (client_init ab) = (r1, x1)"
  shows "queries (snd (sendToClaudeCode a ab run1 run2)) =
           (if (case r1 of Rejected e \<Rightarrow> exit_code_1_signature e | _ \<Rightarrow> False)
            then [queryOptions a None False, queryOptions a (Some fallback_model) True]
            else [queryOptions a None False])
       \<and> q_model (queryOptions a (Some fallback_model) True) = Some fallback_model
       \<and> q_resume (queryOptions a (Some fallback_model) True) = None
       \<and> (signal_aborted x1 \<longrightarrow>
            queries (snd (sendToClaudeCode a ab run1 run2)) = [queryOptions a None False])
       \<and> (\<forall>e1 e2 x2. r1 = Rejected e1 \<longrightarrow> exit_code_1_signature e1 \<longrightarrow>
             executeWithErrorHandling a (Some fallback_model) True run2 x1 = (Rejected e2, x2) \<longrightarrow>
             sendToClaudeCode a ab run1 run2 =
               (Rejected (e2\<lparr>e_message := e_message e2 @ both_failed_note\<rparr>), x2)
             \<and> e_stderrOutput e2 =
                 Some (join_lines (stderr_of (events run1) @ stderr_of (events run2))))"
proof (intro conjI allI impI)
  show "queries (snd (sendToClaudeCode a ab run1 run2)) =
           (if (case r1 of Rejected e \<Rightarrow> exit_code_1_signature e | _ \<Rightarrow> False)
            then [queryOptions a None False, queryOptions a (Some fallback_model) True]
            else [queryOptions a None False])"
    by (rule sendToClaudeCode_queries [OF first])
next
  assume ab: "signal_aborted x1"
  have "\<not> (case r1 of Rejected e \<Rightarrow> exit_code_1_signature e | _ \<Rightarrow> False)"
  proof (cases r1)
    case (Rejected e)
    with first Rejected_not_aborted ab show ?thesis by blast
  qed simp_all
  with sendToClaudeCode_queries [OF first, of run2]
  show "queries (snd (sendToClaudeCode a ab run1 run2)) = [queryOptions a None False]"
    by simp
next
  fix e1 e2 x2
  assume "r1 = Rejected e1" "exit_code_1_signature e1"
    "executeWithErrorHandling a (Some fallback_model) True run2 x1 = (Rejected e2, x2)"
  with first sendToClaudeCode_both_fail [of a run1 ab e1 x1 run2 e2 x2]
  show "sendToClaudeCode a ab run1 run2 =
               (Rejected (e2\<lparr>e_message := e_message e2 @ both_failed_note\<rparr>), x2)"
    and "e_stderrOutput e2 =
                 Some (join_lines (stderr_of (events run1) @ stderr_of (events run2)))"
    by simp_all
qed (simp_all add: queryOptions_retry)

lemma retry_when_signature_example:
  "queries (snd (sendToClaudeCode args_A False
       \<lparr>events = [Stderr ''boom''], ending = Throws exit_1\<rparr>
       \<lparr>events = [Stderr ''again''], ending = Throws exit_1\<rparr>)) =
     [\<lparr>q_prompt = ''first'', q_cwd = ''/w/general'', q_canUseTool = True, q_continue = False,
        q_resume = Some ''sess-A'', q_model = None\<rparr>,
      \<lparr>q_prompt = ''first'', q_cwd = ''/w/general'', q_canUseTool = True, q_continue = False,
        q_resume = None, q_model = Some ''claude-sonnet-4-20250514''\<rparr>]
   \<and> fst (sendToClaudeCode args_A False
       \<lparr>events = [Stderr ''boom''], ending = Throws exit_1\<rparr>
       \<lparr>events = [Stderr ''again''], ending = Throws exit_1\<rparr>) =
     Rejected \<lparr>e_name = ''Error'', e_message = ''exited with code 1'' @ both_failed_note,
               e_stderrOutput = Some (''boom'' @ [CHR 0x0A] @ ''again'')\<rparr>"
proof -
  let ?run1 = "\<lparr>events = [Stderr ''boom''], ending = Throws exit_1\<rparr>"
  let ?run2 = "\<lparr>events = [Stderr ''again''], ending = Throws exit_1\<rparr>"
  let ?x1 = "(client_init False)\<lparr>stderrLines := [''boom''],
       queries := [queryOptions args_A None False], stale_timers := [30000]\<rparr>"
  let ?e1 = "exit_1\<lparr>e_stderrOutput := Some ''boom''\<rparr>"
  have first: "executeWithErrorHandling args_A None False ?run1 (client_init False)
      = (Rejected ?e1, ?x1)"
    by (simp add: executeWithErrorHandling_def start_attempt_def client_init_def abort_like_def
        leave_timer_armed_def STARTUP_TIMEOUT_def exit_1_not_143 exit_1_def)
  have sig: "exit_code_1_signature ?e1"
    using exit_1_signature by (simp add: exit_code_1_signature_def)
  let ?x2 = "(client_init False)\<lparr>stderrLines := [''boom'', ''again''],
       queries := [queryOptions args_A None False, queryOptions args_A (Some fallback_model) True],
       stale_timers := [30000, 30000]\<rparr>"
  let ?e2 = "exit_1\<lparr>e_stderrOutput := Some (''boom'' @ [CHR 0x0A] @ ''again'')\<rparr>"
  have second: "executeWithErrorHandling args_A (Some fallback_model) True ?run2 ?x1
      = (Rejected ?e2, ?x2)"
    by (simp add: executeWithErrorHandling_def start_attempt_def client_init_def abort_like_def
        leave_timer_armed_def STARTUP_TIMEOUT_def exit_1_not_143 exit_1_def)
  have q: "queryOptions args_A None False =
      \<lparr>q_prompt = ''first'', q_cwd = ''/w/general'', q_canUseTool = True, q_continue = False,
        q_resume = Some ''sess-A'', q_model = None\<rparr>"
    "queryOptions args_A (Some fallback_model) True =
      \<lparr>q_prompt = ''first'', q_cwd = ''/w/general'', q_canUseTool = True, q_continue = False,
        q_resume = None, q_model = Some ''claude-sonnet-4-20250514''\<rparr>"
    by (simp_all add: queryOptions_def args_A_def modelToUse_def shouldResume_def
        cleanedSessionId_def clean_sess_A fallback_model_def)
  from retry_when_signature [OF first, of ?run2] sig second q
  show ?thesis
    by (simp add: exit_1_def)
qed

text \<open>
  C4 fails on the code. The first query writes \<open>boom\<close> to stderr and throws an error with
  the exit-code-1 signature; the retry query writes \<open>again\<close> and ends without a message.
  The retry looks for the cost in the last message of an empty list, which throws a
  \<open>TypeError\<close> outside the attempt; the \<open>catch\<close> for a failed retry appends its note and
  throws it on, and the stderr lines of the two attempts are not attached. Besides, the
  signature is met by an exit with another code that starts with 1: a first query that
  throws with exit code 127 is retried as well.
\<close>

theorem retry_failure_without_diagnostics:
  "sendToClaudeCode args_A False
       \<lparr>events = [Stderr ''boom''], ending = Throws exit_1\<rparr>
       \<lparr>events = [Stderr ''again''], ending = Ends\<rparr> =
     (Rejected \<lparr>e_name = ''TypeError'',
                e_message = ''Cannot use 'in' operator to search for 'total_cost_usd' in undefined''
                            @ both_failed_note,
                e_stderrOutput = None\<rparr>,
      (client_init False)\<lparr>stderrLines := [''boom'', ''again''],
         queries := [queryOptions args_A None False,
                     queryOptions args_A (Some fallback_model) True],
         stale_timers := [30000]\<rparr>)
   \<and> queries (snd (sendToClaudeCode args_A False
       \<lparr>events = [], ending = Throws \<lparr>e_name = ''Error'',
            e_message = ''Claude Code process exited with code 127'', e_stderrOutput = None\<rparr>\<rparr>
       \<lparr>events = [Message hello], ending = Ends\<rparr>)) =
     [queryOptions args_A None False, queryOptions args_A (Some fallback_model) True]"
proof -
  have n143: "\<not> str_includes ''Claude Code process exited with code 127'' ''exited with code 143''"
    by code_simp
  have s127: "exit_code_1_signature \<lparr>e_name = ''Error'',
       e_message = ''Claude Code process exited with code 127'', e_stderrOutput = Some []\<rparr>"
    by code_simp
  have nty: "\<not> str_includes
       ''Cannot use 'in' operator to search for 'total_cost_usd' in undefined''
       ''exited with code 143''"
    by code_simp
  have sig: "exit_code_1_signature (exit_1\<lparr>e_stderrOutput := Some ''boom''\<rparr>)"
    using exit_1_signature by (simp add: exit_code_1_signature_def)
  have first: "executeWithErrorHandling args_A None False
       \<lparr>events = [], ending = Throws \<lparr>e_name = ''Error'',
            e_message = ''Claude Code process exited with code 127'', e_stderrOutput = None\<rparr>\<rparr>
       (client_init False) =
     (Rejected \<lparr>e_name = ''Error'',
         e_message = ''Claude Code process exited with code 127'', e_stderrOutput = Some []\<rparr>,
      (client_init False)\<lparr>queries := [queryOptions args_A None False],
         stale_timers := [30000]\<rparr>)"
    by (simp add: executeWithErrorHandling_def start_attempt_def client_init_def abort_like_def
        leave_timer_armed_def STARTUP_TIMEOUT_def n143)
  show ?thesis
  proof (rule conjI)
    show "sendToClaudeCode args_A False
       \<lparr>events = [Stderr ''boom''], ending = Throws exit_1\<rparr>
       \<lparr>events = [Stderr ''again''], ending = Ends\<rparr> =
     (Rejected \<lparr>e_name = ''TypeError'',
                e_message = ''Cannot use 'in' operator to search for 'total_cost_usd' in undefined''
                            @ both_failed_note,
                e_stderrOutput = None\<rparr>,
      (client_init False)\<lparr>stderrLines := [''boom'', ''again''],
         queries := [queryOptions args_A None False,
                     queryOptions args_A (Some fallback_model) True],
         stale_timers := [30000]\<rparr>)"
      using sig nty
      by (simp add: sendToClaudeCode_def executeWithErrorHandling_def start_attempt_def
          client_init_def abort_like_def leave_timer_armed_def STARTUP_TIMEOUT_def
          exit_1_not_143 exit_1_def first_catch_def retry_with_fallback_def
          in_undefined_TypeError_def)
  next
    from sendToClaudeCode_queries [OF first, of "\<lparr>events = [Message hello], ending = Ends\<rparr>"] s127
    show "queries (snd (sendToClaudeCode args_A False
       \<lparr>events = [], ending = Throws \<lparr>e_name = ''Error'',
            e_message = ''Claude Code process exited with code 127'', e_stderrOutput = None\<rparr>\<rparr>
       \<lparr>events = [Message hello], ending = Ends\<rparr>)) =
     [queryOptions args_A None False, queryOptions args_A (Some fallback_model) True]"
      by simp
  qed
qed

section \<open>The timers of the client\<close>

lemma for_await_aborted_mono:
  "signal_aborted x \<Longrightarrow> signal_aborted (snd (for_await a es x))"
  by (induction a es x rule: for_await.induct)
     (simp_all add: elapse_def resetActivityTimeout_def on_message_def Let_def)

lemma for_await_append:
  "for_await a (es1 @ es2) x =
     (if fst (for_await a es1 x) then for_await a es1 x
      else for_await a es2 (snd (for_await a es1 x)))"
  by (induction a es1 x rule: for_await.induct) (simp_all add: Let_def)

lemma broke_aborted:
  "fst (for_await a es x) \<Longrightarrow> signal_aborted (snd (for_await a es x))"
  by (induction a es x rule: for_await.induct) (auto simp: Let_def split: if_splits)

lemma quiet_never_breaks:
  "list_all (\<lambda>e. \<not> is_message e) es \<Longrightarrow> \<not> fst (for_await a es x)"
  by (induction a es x rule: for_await.induct) simp_all

text \<open>While no message comes, an armed timer runs down and fires.\<close>

lemma quiet_timer_fires:
  "list_all (\<lambda>e. \<not> is_message e) es \<Longrightarrow> timeoutId x = Some r \<Longrightarrow> r \<le> elapsed es \<Longrightarrow> 0 < r
     \<Longrightarrow> signal_aborted (snd (for_await a es x))"
proof (induction a es x arbitrary: r rule: for_await.induct)
  case (2 a d es x)
  show ?case
  proof (cases "r \<le> d")
    case True
    with 2 have "signal_aborted (elapse d x)" by (simp add: elapse_def)
    then show ?thesis by (simp add: for_await_aborted_mono)
  next
    case False
    with 2 have "timeoutId (elapse d x) = Some (r - d)" "r - d \<le> elapsed es" "0 < r - d"
      by (simp_all add: elapse_def)
    with 2 show ?thesis by simp
  qed
qed simp_all

lemma quiet_aborts:
  assumes "list_all (\<lambda>e. \<not> is_message e) es"
    and "timeoutId x = Some r \<and> 0 < r \<and> r \<le> elapsed es \<or> signal_aborted x"
  shows "signal_aborted (snd (for_await a es x))"
  using assms quiet_timer_fires for_await_aborted_mono by blast

lemma on_message_timer:
  "timeoutId (on_message a m x) = timeoutId x"
  "signal_aborted (on_message a m x) = signal_aborted x"
  by (simp_all add: on_message_def Let_def)

lemma for_await_startup_quiet:
  assumes "list_all (\<lambda>e. \<not> is_message e) quiet" "STARTUP_TIMEOUT \<le> elapsed quiet"
  shows "signal_aborted (snd (for_await a (quiet @ rest) (start_attempt q x0)))"
proof -
  have "signal_aborted (snd (for_await a quiet (start_attempt q x0)))"
  proof (rule quiet_aborts [OF assms(1)])
    show "timeoutId (start_attempt q x0) = Some STARTUP_TIMEOUT \<and> 0 < STARTUP_TIMEOUT
          \<and> STARTUP_TIMEOUT \<le> elapsed quiet \<or> signal_aborted (start_attempt q x0)"
      using assms(2) by (simp add: start_attempt_def STARTUP_TIMEOUT_def)
  qed
  then show ?thesis
    by (simp add: for_await_append quiet_never_breaks [OF assms(1)] for_await_aborted_mono)
qed

lemma for_await_activity_quiet:
  assumes "list_all (\<lambda>e. \<not> is_message e) quiet" "ACTIVITY_TIMEOUT \<le> elapsed quiet"
  shows "signal_aborted (snd (for_await a (pre @ Message m # quiet @ rest) x))"
proof (cases "fst (for_await a pre x)")
  case True
  then show ?thesis
    by (simp add: for_await_append broke_aborted)
next
  case False
  define x' where "x' = snd (for_await a pre x)"
  define x1 where "x1 = resetActivityTimeout (x'\<lparr>messageCount := Suc (messageCount x')\<rparr>)"
  show ?thesis
  proof (cases "signal_aborted x1")
    case True
    with False show ?thesis
      by (simp add: for_await_append x'_def x1_def Let_def)
  next
    case nab: False
    then have t: "timeoutId (on_message a m x1) = Some ACTIVITY_TIMEOUT"
      by (simp add: on_message_timer x1_def resetActivityTimeout_def)
    have "signal_aborted (snd (for_await a quiet (on_message a m x1)))"
    proof (rule quiet_aborts [OF assms(1)])
      show "timeoutId (on_message a m x1) = Some ACTIVITY_TIMEOUT \<and> 0 < ACTIVITY_TIMEOUT
          \<and> ACTIVITY_TIMEOUT \<le> elapsed quiet \<or> signal_aborted (on_message a m x1)"
        using t assms(2) by (simp add: ACTIVITY_TIMEOUT_def)
    qed
    then have "signal_aborted (snd (for_await a (quiet @ rest) (on_message a m x1)))"
      by (simp add: for_await_append quiet_never_breaks [OF assms(1)] for_await_aborted_mono)
    with False nab show ?thesis
      by (simp add: for_await_append x'_def x1_def Let_def)
  qed
qed

text \<open>An attempt that ends with the controller aborted returns the aborted result, or
  never settles when the query hangs; it does not throw.\<close>

lemma aborted_attempt:
  assumes "signal_aborted (snd (for_await a (events run)
             (start_attempt (queryOptions a ov sk) x0)))"
    and "executeWithErrorHandling a ov sk run x0 = (r, x')"
  shows "signal_aborted x'
       \<and> (case r of
            Resolved res \<Rightarrow> res_aborted res \<and> res_stderrOutput res = join_lines (stderrLines x')
          | Rejected e \<Rightarrow> False
          | NeverSettles \<Rightarrow> ending run = Hangs)"
proof -
  obtain b x2 where
    fa: "for_await a (events run) (start_attempt (queryOptions a ov sk) x0) = (b, x2)"
    by (cases "for_await a (events run) (start_attempt (queryOptions a ov sk) x0)")
  with assms(1) have "signal_aborted x2" by simp
  with assms(2) fa show ?thesis
    by (auto simp: executeWithErrorHandling_def abort_like_def aborted_result_def
        leave_timer_armed_def wait_forever_def split: if_splits stream_end.splits)
qed

lemma aborted_first_attempt:
  assumes "signal_aborted (snd (for_await a (events run1)
             (start_attempt (queryOptions a None False) (client_init ab))))"
  shows "signal_aborted (snd (sendToClaudeCode a ab run1 run2))
       \<and> (case fst (sendToClaudeCode a ab run1 run2) of
            Resolved resp \<Rightarrow>
              response resp = ''Request was cancelled'' \<and> r_sessionId resp = None
              \<and> stderrOutput resp =
                  Some (join_lines (stderrLines (snd (sendToClaudeCode a ab run1 run2))))
          | Rejected e \<Rightarrow> False
          | NeverSettles \<Rightarrow> ending run1 = Hangs)"
proof -
  obtain r1 x1 where
    first: "executeWithErrorHandling a None False run1 (client_init ab) = (r1, x1)"
    by (cases "executeWithErrorHandling a None False run1 (client_init ab)")
  from aborted_attempt [OF assms first] first show ?thesis
    by (cases r1) (simp_all add: sendToClaudeCode_def cancelled_response_def)
qed

text \<open>
  C5, as the claim states it, fails: the client has no timeout errors. A query that
  stays silent for the 30 seconds of the startup timer and then throws the abort error
  makes \<open>sendToClaudeCode\<close> return the response "Request was cancelled", exactly as the
  same query does when the user cancels it; and a query that yields a message, stays
  silent for the 5 minutes of the activity timer and ends gives the same response as one
  cancelled after its first message.
\<close>

theorem timeout_reported_as_cancelled:
  "fst (sendToClaudeCode args_A False
          \<lparr>events = [Stderr ''boom'', Elapse 30000], ending = Throws abort_error\<rparr>
          \<lparr>events = [], ending = Ends\<rparr>) =
     Resolved (cancelled_response ''Default'' (Some ''boom''))
   \<and> fst (sendToClaudeCode args_A False
          \<lparr>events = [Stderr ''boom'', AbortSignal], ending = Throws abort_error\<rparr>
          \<lparr>events = [], ending = Ends\<rparr>) =
     Resolved (cancelled_response ''Default'' (Some ''boom''))
   \<and> fst (sendToClaudeCode args_A False
          \<lparr>events = [Message hello, Elapse 300000], ending = Ends\<rparr>
          \<lparr>events = [], ending = Ends\<rparr>) =
     Resolved (cancelled_response ''Default'' (Some []))
   \<and> fst (sendToClaudeCode args_A False
          \<lparr>events = [Message hello, AbortSignal], ending = Ends\<rparr>
          \<lparr>events = [], ending = Ends\<rparr>) =
     Resolved (cancelled_response ''Default'' (Some []))"
  by (simp add: sendToClaudeCode_def executeWithErrorHandling_def start_attempt_def
      queryOptions_def modelToUse_def shouldResume_def cleanedSessionId_def client_init_def
      leave_timer_armed_def aborted_result_def elapse_def resetActivityTimeout_def
      on_message_def abort_like_def STARTUP_TIMEOUT_def ACTIVITY_TIMEOUT_def Let_def
      abort_error_def hello_def args_A_def)

text \<open>
  C5, amended. In \<open>sendToClaudeCode\<close>, a first query that yields no message while the
  startup deadline (30 seconds) passes, or that yields a message and then none while the
  activity deadline (5 minutes) passes, has its controller aborted. The call then does
  not throw: once the query ends, throws or yields again, the call returns the response
  "Request was cancelled" without a session id, the same as for a cancellation, with the
  captured stderr attached; it stays pending only if the aborted query never reacts.
\<close>

theorem timeouts_end_as_cancelled:
  assumes "list_all (\<lambda>e. \<not> is_message e) quiet"
    and "events run1 = quiet @ rest \<and> STARTUP_TIMEOUT \<le> elapsed quiet
       \<or> (\<exists>pre m. events run1 = pre @ Message m # quiet @ rest)
          \<and> ACTIVITY_TIMEOUT \<le> elapsed quiet"
  shows "signal_aborted (snd (sendToClaudeCode a ab run1 run2))
       \<and> (case fst (sendToClaudeCode a ab run1 run2) of
            Resolved resp \<Rightarrow>
              response resp = ''Request was cancelled'' \<and> r_sessionId resp = None
              \<and> stderrOutput resp =
                  Some (join_lines (stderrLines (snd (sendToClaudeCode a ab run1 run2))))
          | Rejected e \<Rightarrow> False
          | NeverSettles \<Rightarrow> ending run1 = Hangs)"
proof (rule aborted_first_attempt)
  from assms(2)
  show "signal_aborted (snd (for_await a (events run1)
             (start_attempt (queryOptions a None False) (client_init ab))))"
  proof (elim disjE conjE exE)
    assume "events run1 = quiet @ rest" "STARTUP_TIMEOUT \<le> elapsed quiet"
    with for_await_startup_quiet [OF assms(1)] show ?thesis by simp
  next
    fix pre m
    assume "events run1 = pre @ Message m # quiet @ rest" "ACTIVITY_TIMEOUT \<le> elapsed quiet"
    with for_await_activity_quiet [OF assms(1)] show ?thesis by simp
  qed
qed

theorem timeouts_end_as_cancelled_witness:
  "list_all (\<lambda>e. \<not> is_message e) [Stderr ''boom'', Elapse 30000]
   \<and> STARTUP_TIMEOUT \<le> elapsed [Stderr ''boom'', Elapse 30000]
   \<and> ACTIVITY_TIMEOUT \<le> elapsed [Elapse 300000]
   \<and> signal_aborted (snd (sendToClaudeCode args_A False
          \<lparr>events = [Stderr ''boom'', Elapse 30000], ending = Throws abort_error\<rparr>
          \<lparr>events = [], ending = Ends\<rparr>))
   \<and> signal_aborted (snd (sendToClaudeCode args_A False
          \<lparr>events = [Message hello, Elapse 300000], ending = Ends\<rparr>
          \<lparr>events = [], ending = Ends\<rparr>))"
proof -
  have q1: "list_all (\<lambda>e. \<not> is_message e) [Stderr ''boom'', Elapse 30000]"
    and q2: "list_all (\<lambda>e. \<not> is_message e) [Elapse 300000]"
    by simp_all
  have h1: "events \<lparr>events = [Stderr ''boom'', Elapse 30000], ending = Throws abort_error\<rparr>
               = [Stderr ''boom'', Elapse 30000] @ []
             \<and> STARTUP_TIMEOUT \<le> elapsed [Stderr ''boom'', Elapse 30000]
           \<or> (\<exists>pre m. events \<lparr>events = [Stderr ''boom'', Elapse 30000],
                               ending = Throws abort_error\<rparr>
                 = pre @ Message m # [Stderr ''boom'', Elapse 30000] @ [])
             \<and> ACTIVITY_TIMEOUT \<le> elapsed [Stderr ''boom'', Elapse 30000]"
    by (simp add: STARTUP_TIMEOUT_def)
  have "events \<lparr>events = [Message hello, Elapse 300000], ending = Ends\<rparr>
          = [] @ Message hello # [Elapse 300000] @ []"
    by simp
  then have h2: "events \<lparr>events = [Message hello, Elapse 300000], ending = Ends\<rparr>
               = [Elapse 300000] @ []
             \<and> STARTUP_TIMEOUT \<le> elapsed [Elapse 300000]
           \<or> (\<exists>pre m. events \<lparr>events = [Message hello, Elapse 300000], ending = Ends\<rparr>
                 = pre @ Message m # [Elapse 300000] @ [])
             \<and> ACTIVITY_TIMEOUT \<le> elapsed [Elapse 300000]"
    by (intro disjI2 conjI exI) (simp_all add: ACTIVITY_TIMEOUT_def)
  from timeouts_end_as_cancelled [OF q1 h1, of args_A False "\<lparr>events = [], ending = Ends\<rparr>"]
    timeouts_end_as_cancelled [OF q2 h2, of args_A False "\<lparr>events = [], ending = Ends\<rparr>"]
  show ?thesis
    by (simp add: STARTUP_TIMEOUT_def ACTIVITY_TIMEOUT_def)
qed

section \<open>The write guard\<close>

lemma split_slash_nonempty [simp]: "split_slash s \<noteq> []"
  by (induction s) (auto split: list.splits)

lemma split_slash_no_slash: "seg \<in> set (split_slash s) \<Longrightarrow> CHR ''/'' \<notin> set seg"
  by (induction s arbitrary: seg) (auto split: list.splits if_splits)

lemma split_slash_append:
  "split_slash (a @ CHR ''/'' # b) = split_slash a @ split_slash b"
  by (induction a) (auto split: list.splits)

lemma split_slash_plain: "CHR ''/'' \<notin> set s \<Longrightarrow> split_slash s = [s]"
  by (induction s) auto

lemma join_slash_Cons: "ss \<noteq> [] \<Longrightarrow> join_slash (s # ss) = s @ CHR ''/'' # join_slash ss"
  by (cases ss) simp_all

lemma split_join:
  "segs \<noteq> [] \<Longrightarrow> \<forall>s\<in>set segs. CHR ''/'' \<notin> set s \<Longrightarrow> split_slash (join_slash segs) = segs"
proof (induction segs)
  case Nil
  then show ?case by simp
next
  case (Cons s segs)
  show ?case
  proof (cases segs)
    case Nil
    with Cons.prems show ?thesis by (simp add: split_slash_plain)
  next
    case (Cons t ts)
    with Cons.prems Cons.IH show ?thesis
      by (simp add: split_slash_append split_slash_plain)
  qed
qed

lemma join_slash_append:
  "xs \<noteq> [] \<Longrightarrow> ys \<noteq> [] \<Longrightarrow> join_slash (xs @ ys) = join_slash xs @ CHR ''/'' # join_slash ys"
proof (induction xs)
  case Nil
  then show ?case by simp
next
  case (Cons x xs)
  then show ?case
    by (cases xs) (simp_all add: join_slash_Cons)
qed

lemma join_slash_nonempty: "segs \<noteq> [] \<Longrightarrow> \<forall>s\<in>set segs. clean s \<Longrightarrow> join_slash segs \<noteq> []"
  by (cases segs rule: join_slash.cases) (auto simp: clean_def)

lemma join_slash_last:
  "segs \<noteq> [] \<Longrightarrow> \<forall>s\<in>set segs. clean s \<Longrightarrow> last (join_slash segs) \<noteq> CHR ''/''"
proof (induction segs rule: join_slash.induct)
  case 1
  then show ?case by simp
next
  case (2 s)
  then have "s \<noteq> []" "CHR ''/'' \<notin> set s" by (simp_all add: clean_def)
  then show ?case by (metis join_slash.simps(2) last_in_set)
next
  case (3 s t ts)
  then have "join_slash (t # ts) \<noteq> []"
    by (intro join_slash_nonempty) auto
  with 3 show ?case by simp
qed

lemma normalize_segments_clean:
  "\<forall>s\<in>set res. clean s \<Longrightarrow> \<forall>s\<in>set segs. CHR ''/'' \<notin> set s \<Longrightarrow>
   \<forall>s\<in>set (normalize_segments False res segs). clean s"
proof (induction segs arbitrary: res)
  case Nil
  then show ?case by simp
next
  case (Cons seg segs)
  have rest: "\<forall>s\<in>set segs. CHR ''/'' \<notin> set s" and seg: "CHR ''/'' \<notin> set seg"
    using Cons.prems(2) by simp_all
  consider (skip) "seg = [] \<or> seg = ''.''" | (up) "seg \<noteq> []" "seg \<noteq> ''.''" "seg = ''..''"
    | (push) "seg \<noteq> []" "seg \<noteq> ''.''" "seg \<noteq> ''..''"
    by blast
  then show ?case
  proof cases
    case skip
    then have "normalize_segments False res (seg # segs) = normalize_segments False res segs"
      by auto
    with Cons.IH [OF Cons.prems(1) rest] show ?thesis by simp
  next
    case up
    have tl: "\<forall>s\<in>set (tl res). clean s"
      using Cons.prems(1) by (cases res) simp_all
    from up have "normalize_segments False res (seg # segs) =
        normalize_segments False (if res \<noteq> [] \<and> hd res \<noteq> ''..'' then tl res else res) segs"
      by simp
    with Cons.IH [OF Cons.prems(1) rest] Cons.IH [OF tl rest] show ?thesis
      by (simp split: if_splits)
  next
    case push
    with seg have c: "\<forall>s\<in>set (seg # res). clean s"
      using Cons.prems(1) by (simp add: clean_def)
    from push have "normalize_segments False res (seg # segs) =
        normalize_segments False (seg # res) segs"
      by simp
    with Cons.IH [OF c rest] show ?thesis by simp
  qed
qed

lemma normalize_segments_id:
  "\<forall>s\<in>set segs. clean s \<Longrightarrow> normalize_segments False res segs = rev res @ segs"
  by (induction segs arbitrary: res) (auto simp: clean_def)

lemma resolve_scan_absolute:
  "process_cwd \<noteq> [] \<Longrightarrow> hd process_cwd = CHR ''/'' \<Longrightarrow>
   snd (resolve_scan (ps @ [process_cwd]) acc)"
  by (induction ps arbitrary: acc) simp_all

lemma resolve_segments_clean:
  "\<forall>s\<in>set (resolve_segments process_cwd paths). clean s"
  unfolding resolve_segments_def
  by (rule normalize_segments_clean) (auto dest: split_slash_no_slash)

lemma resolve_absolute:
  assumes "process_cwd \<noteq> []" "hd process_cwd = CHR ''/''"
  shows "resolve process_cwd paths = CHR ''/'' # join_slash (resolve_segments process_cwd paths)"
  using resolve_scan_absolute [OF assms, of "rev paths" "[]"]
  by (simp add: resolve_def resolve_segments_def normalizeString_def split_beta)

lemma normalize_clean:
  assumes "\<forall>s\<in>set segs. clean s"
  shows "normalize (CHR ''/'' # join_slash segs) = CHR ''/'' # join_slash segs"
proof (cases "segs = []")
  case True
  then show ?thesis
    by (simp add: normalize_def normalizeString_def)
next
  case False
  have ns: "\<forall>s\<in>set segs. CHR ''/'' \<notin> set s"
    using assms by (auto simp: clean_def)
  have "split_slash (CHR ''/'' # join_slash segs) = [] # segs"
    using split_join [OF False ns] by simp
  then have n: "normalizeString (CHR ''/'' # join_slash segs) False = join_slash segs"
    using assms by (simp add: normalizeString_def normalize_segments_id)
  have j: "join_slash segs \<noteq> []"
    by (rule join_slash_nonempty [OF False assms])
  then have l: "last (CHR ''/'' # join_slash segs) \<noteq> CHR ''/''"
    using join_slash_last [OF False assms] by simp
  have h: "hd (CHR ''/'' # join_slash segs) = CHR ''/''" by simp
  show ?thesis
    by (simp only: normalize_def Let_def n h j l list.simps append.simps if_False if_True
        not_True_eq_False simp_thms)
qed

lemma join_slash_inj:
  assumes "\<forall>s\<in>set r. clean s" "\<forall>s\<in>set p. clean s" "join_slash p = join_slash r"
  shows "p = r"
proof (cases "p = [] \<or> r = []")
  case True
  show ?thesis
  proof (cases "p = []")
    case True
    have "r = []"
    proof (rule ccontr)
      assume "r \<noteq> []"
      from join_slash_nonempty [OF this assms(1)] assms(3) True show False by simp
    qed
    with True show ?thesis by simp
  next
    case False
    with True have "r = []" by simp
    with assms(3) join_slash_nonempty [OF False assms(2)] show ?thesis
      by simp
  qed
next
  case False
  have sp: "split_slash (join_slash p) = p"
    by (rule split_join) (use False assms(2) in \<open>auto simp: clean_def\<close>)
  have sr: "split_slash (join_slash r) = r"
    by (rule split_join) (use False assms(1) in \<open>auto simp: clean_def\<close>)
  have "p = split_slash (join_slash p)" by (simp only: sp)
  also have "\<dots> = split_slash (join_slash r)" by (simp only: assms(3))
  also have "\<dots> = r" by (simp only: sr)
  finally show ?thesis .
qed

lemma inside_iff_prefix:
  assumes r: "\<forall>s\<in>set r. clean s" and p: "\<forall>s\<in>set p. clean s" and ne: "r \<noteq> []"
  shows "(CHR ''/'' # join_slash p = CHR ''/'' # join_slash r
          \<or> prefix ((CHR ''/'' # join_slash r) @ ''/'') (CHR ''/'' # join_slash p))
         \<longleftrightarrow> prefix r p"
proof
  assume "prefix r p"
  then obtain q where q: "p = r @ q" by (auto simp: prefix_def)
  show "CHR ''/'' # join_slash p = CHR ''/'' # join_slash r
          \<or> prefix ((CHR ''/'' # join_slash r) @ ''/'') (CHR ''/'' # join_slash p)"
  proof (cases "q = []")
    case True
    with q show ?thesis by simp
  next
    case False
    with q ne show ?thesis
      by (simp add: join_slash_append)
  qed
next
  assume "CHR ''/'' # join_slash p = CHR ''/'' # join_slash r
          \<or> prefix ((CHR ''/'' # join_slash r) @ ''/'') (CHR ''/'' # join_slash p)"
  then show "prefix r p"
  proof
    assume "CHR ''/'' # join_slash p = CHR ''/'' # join_slash r"
    with join_slash_inj [OF r p] show ?thesis by simp
  next
    assume "prefix ((CHR ''/'' # join_slash r) @ ''/'') (CHR ''/'' # join_slash p)"
    then obtain rest where rest: "join_slash p = join_slash r @ CHR ''/'' # rest"
      by (auto simp: prefix_def)
    then have pne: "p \<noteq> []" by auto
    have sp: "split_slash (join_slash p) = p"
      by (rule split_join) (use pne p in \<open>auto simp: clean_def\<close>)
    have sr: "split_slash (join_slash r) = r"
      by (rule split_join) (use ne r in \<open>auto simp: clean_def\<close>)
    have "p = split_slash (join_slash p)" by (simp only: sp)
    also have "\<dots> = split_slash (join_slash r @ CHR ''/'' # rest)" by (simp only: rest)
    also have "\<dots> = r @ split_slash rest" by (simp only: split_slash_append sr)
    finally have "p = r @ split_slash rest" .
    then show ?thesis by simp
  qed
qed

text \<open>
  In a process with an absolute working directory and a workspace root other than the
  file system root, the guard denies exactly the writes whose path resolves to a location
  that is neither the workspace root nor below it, and allows everything else with the
  input unchanged.
\<close>

lemma guard_characterisation:
  assumes "process_cwd \<noteq> []" "hd process_cwd = CHR ''/''"
    and "resolve_segments process_cwd [workspaceRootDir] \<noteq> []"
  shows "createWorkspaceWriteGuard process_cwd workspaceRootDir cwd toolName input =
     (case pathKey_of toolName of
        Some pathKey \<Rightarrow>
          if truthy (input pathKey)
             \<and> \<not> prefix (resolve_segments process_cwd [workspaceRootDir])
                        (resolve_segments process_cwd [cwd, the (input pathKey)])
          then Deny (deny_message workspaceRootDir (the (input pathKey)))
          else Allow input
      | None \<Rightarrow> Allow input)"
proof -
  have root: "normalize (resolve process_cwd [workspaceRootDir]) =
      CHR ''/'' # join_slash (resolve_segments process_cwd [workspaceRootDir])"
    by (simp only: resolve_absolute [OF assms(1,2)] normalize_clean [OF resolve_segments_clean])
  have path: "\<And>f. normalize (resolve process_cwd [cwd, f]) =
      CHR ''/'' # join_slash (resolve_segments process_cwd [cwd, f])"
    by (simp only: resolve_absolute [OF assms(1,2)] normalize_clean [OF resolve_segments_clean])
  show ?thesis
    using inside_iff_prefix [OF resolve_segments_clean resolve_segments_clean assms(3),
        of process_cwd "[cwd, the (input (the (pathKey_of toolName)))]"]
    by (auto simp: createWorkspaceWriteGuard_def root path Let_def split: option.splits)
qed

text \<open>With the file system root as the workspace root, the guard denies every write
  whose path resolves to anything but the root itself.\<close>

lemma not_prefix_single: "xs \<noteq> [] \<Longrightarrow> hd xs \<noteq> c \<Longrightarrow> \<not> prefix [c] xs"
  by (cases xs) auto

lemma guard_at_root:
  assumes "process_cwd \<noteq> []" "hd process_cwd = CHR ''/''"
    and "resolve_segments process_cwd [workspaceRootDir] = []"
  shows "createWorkspaceWriteGuard process_cwd workspaceRootDir cwd toolName input =
     (case pathKey_of toolName of
        Some pathKey \<Rightarrow>
          if truthy (input pathKey)
             \<and> resolve_segments process_cwd [cwd, the (input pathKey)] \<noteq> []
          then Deny (deny_message workspaceRootDir (the (input pathKey)))
          else Allow input
      | None \<Rightarrow> Allow input)"
proof -
  have "normalize (CHR ''/'' # join_slash []) = CHR ''/'' # join_slash []"
    by (rule normalize_clean) simp
  then have root: "normalize (resolve process_cwd [workspaceRootDir]) = ''/''"
    using assms(3) by (simp add: resolve_absolute [OF assms(1,2)])
  have path: "\<And>f. normalize (resolve process_cwd [cwd, f]) =
      CHR ''/'' # join_slash (resolve_segments process_cwd [cwd, f])"
    by (simp only: resolve_absolute [OF assms(1,2)] normalize_clean [OF resolve_segments_clean])
  have nn: "\<And>f. resolve_segments process_cwd [cwd, f] \<noteq> [] \<Longrightarrow>
      join_slash (resolve_segments process_cwd [cwd, f]) \<noteq> []
      \<and> hd (join_slash (resolve_segments process_cwd [cwd, f])) \<noteq> CHR ''/''"
  proof -
    fix f assume ne: "resolve_segments process_cwd [cwd, f] \<noteq> []"
    then obtain s ss where c: "resolve_segments process_cwd [cwd, f] = s # ss"
      by (cases "resolve_segments process_cwd [cwd, f]") auto
    with resolve_segments_clean [of process_cwd "[cwd, f]"] have "clean s" by simp
    then have "s \<noteq> []" "CHR ''/'' \<notin> set s" by (simp_all add: clean_def)
    then have "s \<noteq> []" "hd s \<noteq> CHR ''/''" by (metis, metis hd_in_set)
    then show "join_slash (resolve_segments process_cwd [cwd, f]) \<noteq> []
      \<and> hd (join_slash (resolve_segments process_cwd [cwd, f])) \<noteq> CHR ''/''"
      unfolding c by (cases ss) simp_all
  qed
  show ?thesis
    using nn [of "the (input (the (pathKey_of toolName)))"]
    by (auto simp: createWorkspaceWriteGuard_def root path Let_def not_prefix_single
        split: option.splits)
qed

text \<open>A tool name that \<open>Object.prototype\<close> knows is treated as a write tool whose path
  is the input entry named by the inherited value; other names are not looked at.\<close>

lemma pathKey_of_examples:
  "pathKey_of ''Edit'' = Some ''file_path''"
  "pathKey_of ''Bash'' = None"
  "pathKey_of ''toString'' = Some ''function toString() { [native code] }''"
  "pathKey_of ''constructor'' = Some ''function Object() { [native code] }''"
  by (simp_all add: pathKey_of_def writeToolPaths_def Object_prototype_functions_def
      native_function_def)

lemma resolve_root: "normalize (resolve ''/home/bot'' [''/'']) = ''/''"
  by code_simp

lemma resolve_notes:
  "normalize (resolve ''/home/bot'' [''/general'', ''notes.txt'']) = ''/general/notes.txt''"
  by code_simp

text \<open>
  C10 fails on the code when the workspace root is the file system root. The root
  normalizes to \<open>/\<close>, and the guard tests the resolved path against the root followed by
  a slash, that is \<open>//\<close>, which no normalized path starts with. So a \<open>Write\<close> to
  \<open>notes.txt\<close> in the working directory \<open>/general\<close>, a path strictly inside the
  workspace \<open>/\<close>, is denied.
\<close>

theorem guard_denies_inside_root_workspace:
  "normalize (resolve ''/home/bot'' [''/'']) = ''/''
   \<and> normalize (resolve ''/home/bot'' [''/general'', ''notes.txt'']) = ''/general/notes.txt''
   \<and> createWorkspaceWriteGuard ''/home/bot'' ''/'' ''/general'' ''Write''
        [''file_path'' \<mapsto> ''notes.txt''] = Deny (deny_message ''/'' ''notes.txt'')"
  by (simp add: createWorkspaceWriteGuard_def pathKey_of_def writeToolPaths_def resolve_root
      resolve_notes)

end
